theory Spec2Isabelle
  imports Main
begin

section \<open>Strings\<close>

text \<open>
  A Python \<open>str\<close> is modelled as a \<open>string\<close>. The two non-ASCII symbols that
  \<open>decon.py\<close> prints (a check mark, a ballot cross) are kept as their UTF-8 bytes.
\<close>

definition nl :: string where
  "nl = [CHR 0x0A]"

definition check_mark :: string where
  "check_mark = [CHR 0xE2, CHR 0x9C, CHR 0x93]"

definition ballot_x :: string where
  "ballot_x = [CHR 0xE2, CHR 0x9C, CHR 0x97]"

text \<open>\<open>sep.join(xs)\<close>.\<close>

fun str_join :: "string \<Rightarrow> string list \<Rightarrow> string" where
  "str_join sep [] = []"
| "str_join sep [x] = x"
| "str_join sep (x # y # ys) = x @ sep @ str_join sep (y # ys)"

text \<open>\<open>str(n)\<close> for an integer, as an f-string renders \<open>process.returncode\<close>.\<close>

definition digit_char :: "nat \<Rightarrow> char" where
  "digit_char d = char_of (48 + d)"

function str_nat :: "nat \<Rightarrow> string" where
  "str_nat n = (if n < 10 then [digit_char n] else str_nat (n div 10) @ [digit_char (n mod 10)])"
  by pat_completeness auto
termination
  by (relation "measure (\<lambda>n. n)") auto

declare str_nat.simps [simp del]

definition str_int :: "int \<Rightarrow> string" where
  "str_int i = (if i < 0 then ''-'' @ str_nat (nat (- i)) else str_nat (nat i))"

text \<open>\<open>str.upper()\<close>, on the ASCII letters.\<close>

definition upper_char :: "char \<Rightarrow> char" where
  "upper_char c =
     (let n = (of_char c :: nat)
      in if 97 \<le> n \<and> n \<le> 122 then char_of (n - 32) else c)"

definition upper :: "string \<Rightarrow> string" where
  "upper s = map upper_char s"

section \<open>Timestamps\<close>

text \<open>
  \<open>datetime.now()\<close> at second resolution, and its rendering by
  \<open>strftime("%Y%m%d_%H%M%S")\<close>: a four-digit year, then two digits for each other field.
\<close>

record datetime =
  year :: nat
  month :: nat
  day :: nat
  hour :: nat
  minute :: nat
  second :: nat

definition valid_datetime :: "datetime \<Rightarrow> bool" where
  "valid_datetime d =
     (1000 \<le> year d \<and> year d \<le> 9999 \<and> 1 \<le> month d \<and> month d \<le> 12 \<and>
      1 \<le> day d \<and> day d \<le> 31 \<and> hour d < 24 \<and> minute d < 60 \<and> second d < 60)"

definition pad2 :: "nat \<Rightarrow> string" where
  "pad2 n = [digit_char (n div 10), digit_char (n mod 10)]"

definition pad4 :: "nat \<Rightarrow> string" where
  "pad4 n = pad2 (n div 100) @ pad2 (n mod 100)"

definition strftime :: "datetime \<Rightarrow> string" where
  "strftime d =
     pad4 (year d) @ pad2 (month d) @ pad2 (day d) @ ''_'' @
     pad2 (hour d) @ pad2 (minute d) @ pad2 (second d)"

section \<open>Paths\<close>

text \<open>
  A \<open>pathlib\<close> POSIX path: its root (\<open>''''\<close>, \<open>''/''\<close> or \<open>''//''\<close>) and its
  components. Parsing a string splits it at the slashes and drops the empty and the
  \<open>.\<close> components; \<open>p / s\<close> restarts from \<open>s\<close> when \<open>s\<close> is absolute.
\<close>

record path =
  root :: string
  names :: "string list"

fun split_slash :: "string \<Rightarrow> string list" where
  "split_slash [] = [[]]"
| "split_slash (c # cs) =
     (if c = CHR ''/'' then [] # split_slash cs
      else (case split_slash cs of [] \<Rightarrow> [[c]] | w # ws \<Rightarrow> (c # w) # ws))"

definition keep_name :: "string \<Rightarrow> bool" where
  "keep_name n = (n \<noteq> [] \<and> n \<noteq> ''.'')"

definition splitroot :: "string \<Rightarrow> string" where
  "splitroot s =
     (if take 1 s \<noteq> ''/'' then []
      else if take 1 (drop 1 s) \<noteq> ''/'' then ''/''
      else if take 1 (drop 2 s) = ''/'' then ''/''
      else ''//'')"

definition parse_path :: "string \<Rightarrow> path" where
  "parse_path s = \<lparr>root = splitroot s, names = filter keep_name (split_slash s)\<rparr>"

definition path_join :: "path \<Rightarrow> string \<Rightarrow> path" where
  "path_join p s =
     (let q = parse_path s
      in if root q \<noteq> [] then q else \<lparr>root = root p, names = names p @ names q\<rparr>)"

definition str_path :: "path \<Rightarrow> string" where
  "str_path p =
     (if root p = [] \<and> names p = [] then ''.'' else root p @ str_join ''/'' (names p))"

text \<open>The directories that \<open>mkdir(parents=True)\<close> makes sure exist: the path and its ancestors.\<close>

definition path_prefixes :: "path \<Rightarrow> path list" where
  "path_prefixes p = map (\<lambda>k. \<lparr>root = root p, names = take k (names p)\<rparr>) [0 ..< Suc (length (names p))]"

section \<open>The world outside the program\<close>

text \<open>
  The state the program changes: the regular files and their contents, the directories,
  and what has been written to standard output, one entry for each \<open>print\<close> call.
\<close>

record world =
  files :: "path \<rightharpoonup> string"
  dirs :: "path set"
  console :: "string list"

text \<open>
  What the program cannot decide: the home directory, the clock, and whether the
  operating system lets it create a directory, open a file for writing, or start a
  child process. \<open>mkdir(parents=True)\<close> makes the missing ancestors from the root down,
  so when it raises it may already have made some of them: the oracle gives their number
  with the exception.

  A child that starts is described by the bytes it writes to its merged standard output
  and error, by its exit code, and by the exception, if there is one, that is raised
  inside the \<open>try\<close> of \<open>run_command\<close> after the spawn: by reading the stream (under
  \<open>text=True\<close> bytes that cannot be decoded raise \<open>UnicodeDecodeError\<close>) once so many
  lines have been delivered, by the write of the line with that index to the log file,
  or by \<open>process.wait()\<close>.
\<close>

datatype exception = FileNotFoundError string | OtherException string

fun str_exception :: "exception \<Rightarrow> string" where
  "str_exception (FileNotFoundError msg) = msg"
| "str_exception (OtherException msg) = msg"

datatype interruption =
    ReadRaises nat exception
  | WriteRaises nat exception
  | WaitRaises exception

record child =
  raw_output :: string
  interrupted :: "interruption option"
  returncode :: int

datatype spawn_result = SpawnRaises exception | Spawned child

record env =
  home :: path
  now :: datetime
  mkdir_raises :: "path \<Rightarrow> (exception \<times> nat) option"
  open_raises :: "path \<Rightarrow> exception option"
  spawn :: "string list \<Rightarrow> spawn_result"

definition print_end :: "string \<Rightarrow> string \<Rightarrow> world \<Rightarrow> world" where
  "print_end s e w = w\<lparr>console := console w @ [s @ e]\<rparr>"

definition print :: "string \<Rightarrow> world \<Rightarrow> world" where
  "print s w = print_end s nl w"

definition fopen_w :: "path \<Rightarrow> world \<Rightarrow> world" where
  "fopen_w p w = w\<lparr>files := (files w)(p \<mapsto> [])\<rparr>"

definition fwrite :: "path \<Rightarrow> string \<Rightarrow> world \<Rightarrow> world" where
  "fwrite p s w =
     w\<lparr>files := (files w)(p \<mapsto> (case files w p of None \<Rightarrow> s | Some c \<Rightarrow> c @ s))\<rparr>"

definition mkdir_parents :: "path \<Rightarrow> world \<Rightarrow> world" where
  "mkdir_parents p w = w\<lparr>dirs := dirs w \<union> set (path_prefixes p)\<rparr>"

section \<open>The Enumerator class\<close>

record enumerator =
  target :: string
  mode :: string
  output_dir :: path

text \<open>
  Both return the world as it is when they return or raise; a raise of \<open>mkdir\<close> leaves
  the ancestors it had made.
\<close>

definition setup_output_dir :: "env \<Rightarrow> enumerator \<Rightarrow> world \<Rightarrow> exception option \<times> world" where
  "setup_output_dir e self w =
     (case mkdir_raises e (output_dir self) of
        Some (x, k) \<Rightarrow>
          (Some x,
           w\<lparr>dirs := dirs w \<union>
              set (take (min k (length (names (output_dir self)))) (path_prefixes (output_dir self)))\<rparr>)
      | None \<Rightarrow>
          (None, print (''[*] Output directory: '' @ str_path (output_dir self))
                   (mkdir_parents (output_dir self) w)))"

definition Enumerator :: "env \<Rightarrow> string \<Rightarrow> string \<Rightarrow> world \<Rightarrow> (exception + enumerator) \<times> world" where
  "Enumerator e tgt md w =
     (let self = \<lparr>target = tgt, mode = md, output_dir = path_join (home e) tgt\<rparr>
      in case setup_output_dir e self w of
           (Some x, w') \<Rightarrow> (Inl x, w')
         | (None, w') \<Rightarrow> (Inr self, w'))"

subsection \<open>run_command\<close>

definition separator :: string where
  "separator = replicate 70 CHR ''=''"

definition output_path :: "env \<Rightarrow> enumerator \<Rightarrow> string \<Rightarrow> path" where
  "output_path e self output_file =
     path_join (output_dir self) (strftime (now e) @ ''_'' @ output_file)"

definition header :: "env \<Rightarrow> enumerator \<Rightarrow> string list \<Rightarrow> string list" where
  "header e self cmd =
     [''# Command: '' @ str_join '' '' cmd @ nl,
      ''# Timestamp: '' @ strftime (now e) @ nl,
      ''# Target: '' @ target self @ nl,
      ''#'' @ separator @ nl @ nl]"

fun write_all :: "path \<Rightarrow> string list \<Rightarrow> world \<Rightarrow> world" where
  "write_all p [] w = w"
| "write_all p (s # ss) w = write_all p ss (fwrite p s w)"

text \<open>
  Reading \<open>process.stdout\<close> under \<open>text=True\<close>: the bytes are decoded, every
  \<open>CR LF\<close> and every other \<open>CR\<close> becomes \<open>LF\<close>, and the text comes line by line,
  each line with its \<open>LF\<close> (the last one may have none). Decoding and the encoding of
  what is written are taken to be the same, so a decodable byte comes out as it went in.
\<close>

fun universal_newlines :: "string \<Rightarrow> string" where
  "universal_newlines [] = []"
| "universal_newlines [c] = (if c = CHR 0x0D then [CHR 0x0A] else [c])"
| "universal_newlines (c # d # cs) =
     (if c = CHR 0x0D \<and> d = CHR 0x0A then CHR 0x0A # universal_newlines cs
      else if c = CHR 0x0D then CHR 0x0A # universal_newlines (d # cs)
      else c # universal_newlines (d # cs))"

fun split_lines :: "string \<Rightarrow> string list" where
  "split_lines [] = []"
| "split_lines (c # cs) =
     (if c = CHR 0x0A then [c] # split_lines cs
      else (case split_lines cs of [] \<Rightarrow> [[c]] | l # ls \<Rightarrow> (c # l) # ls))"

definition read_lines :: "child \<Rightarrow> string list" where
  "read_lines ch = split_lines (universal_newlines (raw_output ch))"

text \<open>
  The loop over \<open>process.stdout\<close>: each line goes to the terminal, then to the file.
  \<open>i\<close> counts the lines delivered so far. The result is the exception that ended the
  loop, if any, and the world at that moment.
\<close>

fun stream_output ::
  "path \<Rightarrow> interruption option \<Rightarrow> nat \<Rightarrow> string list \<Rightarrow> world \<Rightarrow> exception option \<times> world" where
  "stream_output p intr i [] w =
     (case intr of
        Some (ReadRaises n x) \<Rightarrow> (Some x, w)
      | _ \<Rightarrow> (None, w))"
| "stream_output p intr i (line # rest) w =
     (case intr of
        Some (ReadRaises n x) \<Rightarrow>
          (if n = i then (Some x, w)
           else stream_output p intr (Suc i) rest (fwrite p line (print_end line [] w)))
      | Some (WriteRaises n x) \<Rightarrow>
          (if n = i then (Some x, print_end line [] w)
           else stream_output p intr (Suc i) rest (fwrite p line (print_end line [] w)))
      | _ \<Rightarrow> stream_output p intr (Suc i) rest (fwrite p line (print_end line [] w)))"

definition report_exit :: "int \<Rightarrow> world \<Rightarrow> world" where
  "report_exit rc w =
     (if rc = 0 then print (''['' @ check_mark @ ''] Completed successfully'') w
      else print (''[!] Command exited with code '' @ str_int rc) w)"

definition report_exception :: "exception \<Rightarrow> world \<Rightarrow> world" where
  "report_exception x w =
     print (''['' @ ballot_x @ ''] Error running command: '' @ str_exception x) w"

definition run_command :: "env \<Rightarrow> enumerator \<Rightarrow> string list \<Rightarrow> string \<Rightarrow> world \<Rightarrow> bool \<times> world" where
  "run_command e self cmd output_file w =
     (let p = output_path e self output_file;
          w1 = print (nl @ ''[+] Running: '' @ str_join '' '' cmd) w;
          w2 = print (''[*] Saving to: '' @ str_path p) w1
      in case open_raises e p of
           Some x \<Rightarrow> (False, report_exception x w2)
         | None \<Rightarrow>
             (let w3 = write_all p (header e self cmd) (fopen_w p w2)
              in case spawn e cmd of
                   SpawnRaises x \<Rightarrow> (False, report_exception x w3)
                 | Spawned ch \<Rightarrow>
                     (case stream_output p (interrupted ch) 0 (read_lines ch) w3 of
                        (Some x, w4) \<Rightarrow> (False, report_exception x w4)
                      | (None, w4) \<Rightarrow>
                          (case interrupted ch of
                             Some (WaitRaises x) \<Rightarrow> (False, report_exception x w4)
                           | _ \<Rightarrow> (True, report_exit (returncode ch) w4)))))"

subsection \<open>The two profiles and run_enumeration\<close>

definition nmap_ctf_cmd :: "enumerator \<Rightarrow> string list" where
  "nmap_ctf_cmd self = [''nmap'', ''-sC'', ''-sV'', ''-Pn'', ''-T4'', target self]"

definition nmap_ctf :: "env \<Rightarrow> enumerator \<Rightarrow> world \<Rightarrow> world" where
  "nmap_ctf e self w = snd (run_command e self (nmap_ctf_cmd self) ''nmap_ctf.txt'' w)"

definition nmap_realworld_cmd :: "enumerator \<Rightarrow> string list" where
  "nmap_realworld_cmd self = [''nmap'', ''-sV'', ''-Pn'', ''--open'', ''-p-'', target self]"

definition nmap_realworld :: "env \<Rightarrow> enumerator \<Rightarrow> world \<Rightarrow> world" where
  "nmap_realworld e self w =
     snd (run_command e self (nmap_realworld_cmd self) ''nmap_full.txt'' w)"

definition run_enumeration :: "env \<Rightarrow> enumerator \<Rightarrow> world \<Rightarrow> world" where
  "run_enumeration e self w =
     (let w1 = print (nl @ separator) w;
          w2 = print (''Smart Enumerator - '' @ upper (mode self) @ '' Mode'') w1;
          w3 = print (''Target: '' @ target self) w2;
          w4 = print separator w3;
          w5 = (if mode self = ''ctf'' then nmap_ctf e self w4
                else if mode self = ''real'' then nmap_realworld e self w4
                else w4);
          w6 = print (nl @ separator) w5;
          w7 = print (''['' @ check_mark @ ''] Enumeration complete!'') w6;
          w8 = print (''[*] Results saved in: '' @ str_path (output_dir self)) w7
      in print (separator @ nl) w8)"

section \<open>The command line\<close>

text \<open>
  The parser that \<open>main\<close> builds has two options, both required, each taking one
  value: \<open>-t/--target\<close> (any string) and \<open>-m/--mode\<close> (one of \<open>ctf\<close>,
  \<open>real\<close>). The model covers the command lines in which every word that starts with
  a dash is one of these four option names written in full: a word that is empty or does
  not start with a dash is a value. Other spellings (\<open>--target=x\<close>, \<open>-tx\<close>,
  abbreviations, \<open>-h\<close>, \<open>--\<close>, negative numbers) are outside the model, and
  \<open>parse_args\<close> answers \<open>Unmodelled\<close> for them. A usage error ends the program with
  status 2 and a message on standard error.
\<close>

record args =
  arg_target :: string
  arg_mode :: string

datatype usage_error = ExpectedOneArgument | InvalidChoice | MissingRequired | UnrecognizedArguments

datatype parse_result = Parsed args | UsageError usage_error | Unmodelled

definition is_target_flag :: "string \<Rightarrow> bool" where
  "is_target_flag a = (a = ''-t'' \<or> a = ''--target'')"

definition is_mode_flag :: "string \<Rightarrow> bool" where
  "is_mode_flag a = (a = ''-m'' \<or> a = ''--mode'')"

definition is_value :: "string \<Rightarrow> bool" where
  "is_value a = (take 1 a \<noteq> ''-'')"

definition modelled_word :: "string \<Rightarrow> bool" where
  "modelled_word a = (is_value a \<or> is_target_flag a \<or> is_mode_flag a)"

definition mode_choices :: "string list" where
  "mode_choices = [''ctf'', ''real'']"

fun consume :: "string list \<Rightarrow> string option \<Rightarrow> string option \<Rightarrow> bool \<Rightarrow> parse_result" where
  "consume [] (Some t) (Some m) extras =
     (if extras then UsageError UnrecognizedArguments
      else Parsed \<lparr>arg_target = t, arg_mode = m\<rparr>)"
| "consume [] t m extras = UsageError MissingRequired"
| "consume [a] t m extras =
     (if is_target_flag a \<or> is_mode_flag a then UsageError ExpectedOneArgument
      else consume [] t m True)"
| "consume (a # v # rest) t m extras =
     (if is_target_flag a then
        (if is_value v then consume rest (Some v) m extras
         else UsageError ExpectedOneArgument)
      else if is_mode_flag a then
        (if is_value v then
           (if v \<in> set mode_choices then consume rest t (Some v) extras
            else UsageError InvalidChoice)
         else UsageError ExpectedOneArgument)
      else consume (v # rest) t m True)"

definition parse_args :: "string list \<Rightarrow> parse_result" where
  "parse_args argv =
     (if list_all modelled_word argv then consume argv None None False else Unmodelled)"

section \<open>main\<close>

text \<open>
  How the process ends: \<open>main\<close> returns (status 0), \<open>sys.exit(n)\<close> is called, or an
  exception nobody catches ends the interpreter with a traceback and status 1.
\<close>

datatype ending = Returned | SysExit int | Uncaught exception

fun exit_status :: "ending \<Rightarrow> int" where
  "exit_status Returned = 0"
| "exit_status (SysExit n) = n"
| "exit_status (Uncaught x) = 1"

definition preflight_cmd :: "string list" where
  "preflight_cmd = [''nmap'', ''--version'']"

definition preflight_diagnostic :: string where
  "preflight_diagnostic = ''['' @ ballot_x @ ''] Error: nmap is not installed or not in PATH'' @ nl"

text \<open>
  \<open>subprocess.run(..., capture_output=True, check=True)\<close>: nothing is displayed; a
  non-zero exit code raises \<open>CalledProcessError\<close>, which \<open>main\<close> catches together
  with \<open>FileNotFoundError\<close>. Any other exception is not caught.
\<close>

datatype preflight = PreflightOk | PreflightCaught | PreflightUncaught exception

definition check_nmap :: "env \<Rightarrow> preflight" where
  "check_nmap e =
     (case spawn e preflight_cmd of
        SpawnRaises (FileNotFoundError msg) \<Rightarrow> PreflightCaught
      | SpawnRaises (OtherException msg) \<Rightarrow> PreflightUncaught (OtherException msg)
      | Spawned ch \<Rightarrow> (if returncode ch \<noteq> 0 then PreflightCaught else PreflightOk))"

definition run_main :: "env \<Rightarrow> args \<Rightarrow> world \<Rightarrow> ending \<times> world" where
  "run_main e a w =
     (case check_nmap e of
        PreflightCaught \<Rightarrow> (SysExit 1, print_end preflight_diagnostic [] w)
      | PreflightUncaught x \<Rightarrow> (Uncaught x, w)
      | PreflightOk \<Rightarrow>
          (case Enumerator e (arg_target a) (arg_mode a) w of
             (Inl x, w') \<Rightarrow> (Uncaught x, w')
           | (Inr self, w') \<Rightarrow> (Returned, run_enumeration e self w')))"

definition main :: "env \<Rightarrow> string list \<Rightarrow> world \<Rightarrow> (ending \<times> world) option" where
  "main e argv w =
     (case parse_args argv of
        Unmodelled \<Rightarrow> None
      | UsageError u \<Rightarrow> Some (SysExit 2, w)
      | Parsed a \<Rightarrow> Some (run_main e a w))"

section \<open>Sample runs\<close>

text \<open>
  Concrete environments on which the theorems below are exercised: a scan that starts and
  exits with a given code, a scan that cannot be started, and a machine without nmap.
\<close>

definition demo_home :: path where
  "demo_home = \<lparr>root = ''/'', names = [''home'', ''kali'']\<rparr>"

definition demo_now :: datetime where
  "demo_now = \<lparr>year = 2024, month = 3, day = 7, hour = 9, minute = 5, second = 0\<rparr>"

definition demo_later :: datetime where
  "demo_later = \<lparr>year = 2024, month = 3, day = 7, hour = 9, minute = 5, second = 1\<rparr>"

definition demo_child :: "int \<Rightarrow> child" where
  "demo_child rc =
     \<lparr>raw_output = ''Starting Nmap\<newline>Nmap done\<newline>'', interrupted = None, returncode = rc\<rparr>"

definition demo_env :: "(string list \<Rightarrow> spawn_result) \<Rightarrow> env" where
  "demo_env sp =
     \<lparr>home = demo_home, now = demo_now, mkdir_raises = (\<lambda>p. None),
      open_raises = (\<lambda>p. None), spawn = sp\<rparr>"

definition scan_exits :: "int \<Rightarrow> string list \<Rightarrow> spawn_result" where
  "scan_exits rc cmd = (if cmd = preflight_cmd then Spawned (demo_child 0) else Spawned (demo_child rc))"

definition scan_not_spawned :: "string list \<Rightarrow> spawn_result" where
  "scan_not_spawned cmd =
     (if cmd = preflight_cmd then Spawned (demo_child 0)
      else SpawnRaises (OtherException ''[Errno 13] Permission denied''))"

definition nmap_absent :: "string list \<Rightarrow> spawn_result" where
  "nmap_absent cmd = SpawnRaises (FileNotFoundError ''[Errno 2] No such file or directory'')"

definition demo_self :: enumerator where
  "demo_self = \<lparr>target = ''10.10.10.1'', mode = ''ctf'', output_dir = path_join demo_home ''10.10.10.1''\<rparr>"

definition empty_world :: world where
  "empty_world = \<lparr>files = Map.empty, dirs = {}, console = []\<rparr>"

definition demo_args :: args where
  "demo_args = \<lparr>arg_target = ''10.10.10.1'', arg_mode = ''ctf''\<rparr>"

definition preflight_denied :: "string list \<Rightarrow> spawn_result" where
  "preflight_denied cmd = SpawnRaises (OtherException ''[Errno 13] Permission denied'')"

definition nmap_broken :: "string list \<Rightarrow> spawn_result" where
  "nmap_broken cmd = Spawned \<lparr>raw_output = [], interrupted = None, returncode = 127\<rparr>"

definition garbled_child :: child where
  "garbled_child =
     \<lparr>raw_output = ''Starting Nmap\<newline>'' @ [CHR 0xFF, CHR 0x0A],
      interrupted = Some (ReadRaises 1 (OtherException ''invalid start byte'')),
      returncode = 137\<rparr>"

definition scan_garbled :: "string list \<Rightarrow> spawn_result" where
  "scan_garbled cmd = (if cmd = preflight_cmd then Spawned (demo_child 0) else Spawned garbled_child)"

definition crlf_child :: child where
  "crlf_child =
     \<lparr>raw_output = ''PORT STATE'' @ [CHR 0x0D, CHR 0x0A] @ ''22/tcp open'' @ [CHR 0x0A],
      interrupted = None, returncode = 0\<rparr>"

definition scan_crlf :: "string list \<Rightarrow> spawn_result" where
  "scan_crlf cmd = (if cmd = preflight_cmd then Spawned (demo_child 0) else Spawned crlf_child)"

definition disk_full :: interruption where
  "disk_full = WriteRaises 1 (OtherException ''No space left'')"

definition demo_child_with :: "interruption \<Rightarrow> child" where
  "demo_child_with intr =
     \<lparr>raw_output = ''Starting Nmap\<newline>Nmap done\<newline>'', interrupted = Some intr, returncode = 0\<rparr>"

definition scan_interrupted :: "interruption \<Rightarrow> string list \<Rightarrow> spawn_result" where
  "scan_interrupted intr cmd =
     (if cmd = preflight_cmd then Spawned (demo_child 0) else Spawned (demo_child_with intr))"

definition mkdir_denied_env :: env where
  "mkdir_denied_env =
     \<lparr>home = demo_home, now = demo_now,
      mkdir_raises = (\<lambda>p. Some (OtherException ''[Errno 13] Permission denied'', 3)),
      open_raises = (\<lambda>p. None), spawn = scan_exits 0\<rparr>"

definition two_line_self :: enumerator where
  "two_line_self =
     \<lparr>target = ''a\<newline>b'', mode = ''ctf'', output_dir = path_join demo_home ''a\<newline>b''\<rparr>"

section \<open>Effects of the primitive operations\<close>

lemma console_fwrite [simp]: "console (fwrite p s w) = console w"
  by (simp add: fwrite_def)

lemma dirs_fwrite [simp]: "dirs (fwrite p s w) = dirs w"
  by (simp add: fwrite_def)

lemma files_fwrite_same: "files w p = Some c \<Longrightarrow> files (fwrite p s w) p = Some (c @ s)"
  by (simp add: fwrite_def)

lemma files_fwrite_other: "q \<noteq> p \<Longrightarrow> files (fwrite p s w) q = files w q"
  by (simp add: fwrite_def)

lemma console_print_end [simp]: "console (print_end s t w) = console w @ [s @ t]"
  by (simp add: print_end_def)

lemma files_print_end [simp]: "files (print_end s t w) = files w"
  by (simp add: print_end_def)

lemma dirs_print_end [simp]: "dirs (print_end s t w) = dirs w"
  by (simp add: print_end_def)

lemma console_print [simp]: "console (print s w) = console w @ [s @ nl]"
  by (simp add: print_def)

lemma files_print [simp]: "files (print s w) = files w"
  by (simp add: print_def)

lemma dirs_print [simp]: "dirs (print s w) = dirs w"
  by (simp add: print_def)

lemma console_fopen_w [simp]: "console (fopen_w p w) = console w"
  by (simp add: fopen_w_def)

lemma dirs_fopen_w [simp]: "dirs (fopen_w p w) = dirs w"
  by (simp add: fopen_w_def)

lemma files_fopen_w_same [simp]: "files (fopen_w p w) p = Some []"
  by (simp add: fopen_w_def)

lemma files_fopen_w_other: "q \<noteq> p \<Longrightarrow> files (fopen_w p w) q = files w q"
  by (simp add: fopen_w_def)

lemma console_mkdir_parents [simp]: "console (mkdir_parents p w) = console w"
  by (simp add: mkdir_parents_def)

lemma console_write_all [simp]: "console (write_all p ss w) = console w"
  by (induction ss arbitrary: w) simp_all

lemma dirs_write_all [simp]: "dirs (write_all p ss w) = dirs w"
  by (induction ss arbitrary: w) simp_all

lemma files_write_all_same:
  "files w p = Some c \<Longrightarrow> files (write_all p ss w) p = Some (c @ concat ss)"
  by (induction ss arbitrary: w c) (simp_all add: files_fwrite_same)

lemma files_write_all_other: "q \<noteq> p \<Longrightarrow> files (write_all p ss w) q = files w q"
  by (induction ss arbitrary: w) (simp_all add: files_fwrite_other)

lemma concat_split_lines: "concat (split_lines s) = s"
  by (induction s) (auto split: list.splits)

lemma stream_output_uninterrupted [simp]: "fst (stream_output p None i ls w) = None"
  by (induction ls arbitrary: i w) simp_all

lemma console_stream_output [simp]:
  "console (snd (stream_output p None i ls w)) = console w @ ls"
  by (induction ls arbitrary: i w) simp_all

lemma files_stream_output_same:
  "files w p = Some c \<Longrightarrow> files (snd (stream_output p None i ls w)) p = Some (c @ concat ls)"
  by (induction ls arbitrary: i w c) (simp_all add: files_fwrite_same)

lemma files_stream_output_other:
  "q \<noteq> p \<Longrightarrow> files (snd (stream_output p intr i ls w)) q = files w q"
  by (induction ls arbitrary: i w)
    (auto simp: files_fwrite_other split: option.splits interruption.splits)

lemma console_report_exit:
  "console (report_exit rc w) = console w @
     [(if rc = 0 then ''['' @ check_mark @ ''] Completed successfully''
       else ''[!] Command exited with code '' @ str_int rc) @ nl]"
  by (simp add: report_exit_def)

lemma files_report_exit [simp]: "files (report_exit rc w) = files w"
  by (simp add: report_exit_def)

lemma dirs_report_exit [simp]: "dirs (report_exit rc w) = dirs w"
  by (simp add: report_exit_def)

lemma console_report_exception [simp]:
  "console (report_exception x w) =
     console w @ [''['' @ ballot_x @ ''] Error running command: '' @ str_exception x @ nl]"
  by (simp add: report_exception_def)

lemma files_report_exception [simp]: "files (report_exception x w) = files w"
  by (simp add: report_exception_def)

lemma dirs_report_exception [simp]: "dirs (report_exception x w) = dirs w"
  by (simp add: report_exception_def)

section \<open>Effects of run_command\<close>

lemma run_command_spawned:
  assumes "open_raises e (output_path e self f) = None" and "spawn e cmd = Spawned ch"
    and "interrupted ch = None"
  shows "run_command e self cmd f w =
    (True, report_exit (returncode ch)
       (snd (stream_output (output_path e self f) None 0 (read_lines ch)
         (write_all (output_path e self f) (header e self cmd) (fopen_w (output_path e self f)
           (print (''[*] Saving to: '' @ str_path (output_path e self f))
             (print (nl @ ''[+] Running: '' @ str_join '' '' cmd) w)))))))"
proof -
  let ?w3 = "write_all (output_path e self f) (header e self cmd) (fopen_w (output_path e self f)
           (print (''[*] Saving to: '' @ str_path (output_path e self f))
             (print (nl @ ''[+] Running: '' @ str_join '' '' cmd) w)))"
  obtain r w4 where s: "stream_output (output_path e self f) None 0 (read_lines ch) ?w3 = (r, w4)"
    by (cases "stream_output (output_path e self f) None 0 (read_lines ch) ?w3")
  then have "fst (stream_output (output_path e self f) None 0 (read_lines ch) ?w3) = r"
    by simp
  then have r: "r = None" by simp
  show ?thesis
    using assms s r by (simp add: run_command_def Let_def)
qed

lemma run_command_not_spawned:
  assumes "open_raises e (output_path e self f) = None" and "spawn e cmd = SpawnRaises x"
  shows "run_command e self cmd f w =
    (False, report_exception x
       (write_all (output_path e self f) (header e self cmd) (fopen_w (output_path e self f)
         (print (''[*] Saving to: '' @ str_path (output_path e self f))
           (print (nl @ ''[+] Running: '' @ str_join '' '' cmd) w)))))"
  using assms by (simp add: run_command_def Let_def)

lemma run_command_not_opened:
  assumes "open_raises e (output_path e self f) = Some x"
  shows "run_command e self cmd f w =
    (False, report_exception x
         (print (''[*] Saving to: '' @ str_path (output_path e self f))
           (print (nl @ ''[+] Running: '' @ str_join '' '' cmd) w)))"
  using assms by (simp add: run_command_def Let_def)

lemma files_header_written:
  "files (write_all p hs (fopen_w p w)) p = Some (concat hs)"
  using files_write_all_same [of "fopen_w p w" p "[]" hs] by simp

lemma concat_header:
  "concat (header e self cmd) =
     ''# Command: '' @ str_join '' '' cmd @ nl @
     ''# Timestamp: '' @ strftime (now e) @ nl @
     ''# Target: '' @ target self @ nl @
     ''#'' @ replicate 70 CHR ''='' @ nl @ nl"
  by (simp add: header_def separator_def)

lemma files_run_command_other:
  assumes "q \<noteq> output_path e self f"
  shows "files (snd (run_command e self cmd f w)) q = files w q"
proof (cases "open_raises e (output_path e self f)")
  case (Some x)
  then show ?thesis by (simp add: run_command_not_opened)
next
  case None
  show ?thesis
  proof (cases "spawn e cmd")
    case (SpawnRaises x)
    with None assms show ?thesis
      by (simp add: run_command_not_spawned files_write_all_other files_fopen_w_other)
  next
    case (Spawned ch)
    let ?w3 = "write_all (output_path e self f) (header e self cmd)
        (fopen_w (output_path e self f)
          (print (''[*] Saving to: '' @ str_path (output_path e self f))
            (print (nl @ ''[+] Running: '' @ str_join '' '' cmd) w)))"
    obtain r w4 where
      s: "stream_output (output_path e self f) (interrupted ch) 0 (read_lines ch) ?w3 = (r, w4)"
      by (cases "stream_output (output_path e self f) (interrupted ch) 0 (read_lines ch) ?w3")
    have "files (snd (stream_output (output_path e self f) (interrupted ch) 0 (read_lines ch) ?w3)) q
            = files ?w3 q"
      using assms by (rule files_stream_output_other)
    with s have "files w4 q = files ?w3 q" by simp
    also have "\<dots> = files w q"
      using assms by (simp add: files_write_all_other files_fopen_w_other)
    finally have w4: "files w4 q = files w q" .
    show ?thesis
      using None Spawned s w4
      by (simp add: run_command_def Let_def split: option.splits interruption.splits)
  qed
qed

lemma str_int_137: "str_int 137 = ''137''"
  by code_simp

lemma strftime_demo_now: "strftime demo_now = ''20240307_090500''"
  by code_simp

lemma read_lines_demo_child:
  "read_lines (demo_child rc) = [''Starting Nmap\<newline>'', ''Nmap done\<newline>'']"
  by (simp add: read_lines_def demo_child_def)

section \<open>The command profiles\<close>

text \<open>
  C2. For every target, the CTF profile builds the token list
  \<open>nmap -sC -sV -Pn -T4 target\<close>, with the target last, and \<open>nmap_ctf\<close> runs exactly this
  command with the log file name \<open>nmap_ctf.txt\<close>. For the target \<open>10.10.10.1\<close> the
  list is \<open>nmap -sC -sV -Pn -T4 10.10.10.1\<close>.
\<close>

theorem nmap_ctf_command:
  "nmap_ctf_cmd self = [''nmap'', ''-sC'', ''-sV'', ''-Pn'', ''-T4'', target self] \<and>
   last (nmap_ctf_cmd self) = target self \<and>
   nmap_ctf e self w =
     snd (run_command e self [''nmap'', ''-sC'', ''-sV'', ''-Pn'', ''-T4'', target self]
            ''nmap_ctf.txt'' w) \<and>
   nmap_ctf_cmd \<lparr>target = ''10.10.10.1'', mode = ''ctf'', output_dir = d\<rparr> =
     [''nmap'', ''-sC'', ''-sV'', ''-Pn'', ''-T4'', ''10.10.10.1'']"
  by (simp add: nmap_ctf_cmd_def nmap_ctf_def)

text \<open>
  C3. For every target, the REAL profile builds the token list
  \<open>nmap -sV -Pn --open -p- target\<close>, with the target last, and \<open>nmap_realworld\<close> runs
  exactly this command with the log file name \<open>nmap_full.txt\<close>. For the target
  \<open>example.com\<close> the list is \<open>nmap -sV -Pn --open -p- example.com\<close>.
\<close>

theorem nmap_realworld_command:
  "nmap_realworld_cmd self = [''nmap'', ''-sV'', ''-Pn'', ''--open'', ''-p-'', target self] \<and>
   last (nmap_realworld_cmd self) = target self \<and>
   nmap_realworld e self w =
     snd (run_command e self [''nmap'', ''-sV'', ''-Pn'', ''--open'', ''-p-'', target self]
            ''nmap_full.txt'' w) \<and>
   nmap_realworld_cmd \<lparr>target = ''example.com'', mode = ''real'', output_dir = d\<rparr> =
     [''nmap'', ''-sV'', ''-Pn'', ''--open'', ''-p-'', ''example.com'']"
  by (simp add: nmap_realworld_cmd_def nmap_realworld_def)

section \<open>What run_command returns\<close>

text \<open>
  C1, as the code has it. When the log file was opened, the child process was started
  and nothing raised while its output was read and logged and while it was waited for,
  \<open>run_command\<close> returns \<open>True\<close> whatever the exit code is. The exit code only selects the last line printed:
  the success line when it is zero, the warning line with the code otherwise.
\<close>

theorem run_command_true_when_child_ran:
  assumes "open_raises e (output_path e self f) = None" and "spawn e cmd = Spawned ch"
    and "interrupted ch = None"
  shows "fst (run_command e self cmd f w) = True \<and>
         last (console (snd (run_command e self cmd f w))) =
           (if returncode ch = 0 then ''['' @ check_mark @ ''] Completed successfully'' @ nl
            else ''[!] Command exited with code '' @ str_int (returncode ch) @ nl)"
  using assms by (simp add: run_command_spawned console_report_exit)

theorem run_command_true_when_child_ran_witness:
  "open_raises (demo_env (scan_exits 137))
     (output_path (demo_env (scan_exits 137)) demo_self ''nmap_ctf.txt'') = None \<and>
   spawn (demo_env (scan_exits 137)) (nmap_ctf_cmd demo_self) = Spawned (demo_child 137) \<and>
   interrupted (demo_child 137) = None \<and>
   fst (run_command (demo_env (scan_exits 137)) demo_self (nmap_ctf_cmd demo_self)
          ''nmap_ctf.txt'' empty_world) = True \<and>
   last (console (snd (run_command (demo_env (scan_exits 137)) demo_self
          (nmap_ctf_cmd demo_self) ''nmap_ctf.txt'' empty_world))) =
     ''[!] Command exited with code 137\<newline>''"
proof -
  have o: "open_raises (demo_env (scan_exits 137))
     (output_path (demo_env (scan_exits 137)) demo_self ''nmap_ctf.txt'') = None"
    by (simp add: demo_env_def)
  have s: "spawn (demo_env (scan_exits 137)) (nmap_ctf_cmd demo_self) = Spawned (demo_child 137)"
    by (simp add: demo_env_def scan_exits_def nmap_ctf_cmd_def preflight_cmd_def)
  have i: "interrupted (demo_child 137) = None"
    by (simp add: demo_child_def)
  have r: "returncode (demo_child 137) = 137"
    by (simp add: demo_child_def)
  show ?thesis
    using run_command_true_when_child_ran [OF o s i, of empty_world] o s i
    by (simp add: r str_int_137 nl_def)
qed

text \<open>
  The claim as the specification words it, that the value returned equals
  \<open>exit code = 0\<close>, fails for a scan that exits with code 137: the value is \<open>True\<close>.
\<close>

theorem run_command_exit_137_counterexample:
  "spawn (demo_env (scan_exits 137)) (nmap_ctf_cmd demo_self) = Spawned (demo_child 137) \<and>
   returncode (demo_child 137) = 137 \<and>
   fst (run_command (demo_env (scan_exits 137)) demo_self (nmap_ctf_cmd demo_self)
          ''nmap_ctf.txt'' empty_world) \<noteq> (returncode (demo_child 137) = 0)"
proof -
  have o: "open_raises (demo_env (scan_exits 137))
     (output_path (demo_env (scan_exits 137)) demo_self ''nmap_ctf.txt'') = None"
    by (simp add: demo_env_def)
  have s: "spawn (demo_env (scan_exits 137)) (nmap_ctf_cmd demo_self) = Spawned (demo_child 137)"
    by (simp add: demo_env_def scan_exits_def nmap_ctf_cmd_def preflight_cmd_def)
  have i: "interrupted (demo_child 137) = None"
    by (simp add: demo_child_def)
  have r: "returncode (demo_child 137) = 137"
    by (simp add: demo_child_def)
  show ?thesis
    using s by (simp add: run_command_spawned [OF o s i] r)
qed

text \<open>
  C5. When the child process cannot be started, \<open>run_command\<close> does not let the
  exception escape: it prints the diagnostic line with the exception's message after the
  two announcement lines, and returns \<open>False\<close> to its caller.
\<close>

theorem run_command_spawn_failure:
  assumes "open_raises e (output_path e self f) = None" and "spawn e cmd = SpawnRaises x"
  shows "fst (run_command e self cmd f w) = False \<and>
         console (snd (run_command e self cmd f w)) =
           console w @
           [nl @ ''[+] Running: '' @ str_join '' '' cmd @ nl,
            ''[*] Saving to: '' @ str_path (output_path e self f) @ nl,
            ''['' @ ballot_x @ ''] Error running command: '' @ str_exception x @ nl]"
  using assms by (simp add: run_command_not_spawned)

theorem run_command_spawn_failure_witness:
  "open_raises (demo_env scan_not_spawned)
     (output_path (demo_env scan_not_spawned) demo_self ''nmap_ctf.txt'') = None \<and>
   spawn (demo_env scan_not_spawned) (nmap_ctf_cmd demo_self) =
     SpawnRaises (OtherException ''[Errno 13] Permission denied'') \<and>
   fst (run_command (demo_env scan_not_spawned) demo_self (nmap_ctf_cmd demo_self)
          ''nmap_ctf.txt'' empty_world) = False \<and>
   last (console (snd (run_command (demo_env scan_not_spawned) demo_self
          (nmap_ctf_cmd demo_self) ''nmap_ctf.txt'' empty_world))) =
     ''['' @ ballot_x @ ''] Error running command: [Errno 13] Permission denied'' @ nl"
proof -
  have o: "open_raises (demo_env scan_not_spawned)
     (output_path (demo_env scan_not_spawned) demo_self ''nmap_ctf.txt'') = None"
    by (simp add: demo_env_def)
  have s: "spawn (demo_env scan_not_spawned) (nmap_ctf_cmd demo_self) =
     SpawnRaises (OtherException ''[Errno 13] Permission denied'')"
    by (simp add: demo_env_def scan_not_spawned_def nmap_ctf_cmd_def preflight_cmd_def)
  show ?thesis
    using run_command_spawn_failure [OF o s, of empty_world] o s by simp
qed

section \<open>Timestamps and paths\<close>

lemma digit_char_inj: "a < 10 \<Longrightarrow> b < 10 \<Longrightarrow> digit_char a = digit_char b \<Longrightarrow> a = b"
proof -
  assume a: "a < 10" and b: "b < 10" and eq: "digit_char a = digit_char b"
  from eq have "(of_char (digit_char a) :: nat) = of_char (digit_char b)" by simp
  with a b show "a = b" by (simp add: digit_char_def)
qed

lemma digit_char_not_slash: "d < 10 \<Longrightarrow> digit_char d \<noteq> CHR ''/''"
proof
  assume d: "d < 10" and eq: "digit_char d = CHR ''/''"
  from eq have "(of_char (digit_char d) :: nat) = of_char CHR ''/''" by simp
  with d show False by (simp add: digit_char_def)
qed

lemma pad2_inj: "a < 100 \<Longrightarrow> b < 100 \<Longrightarrow> pad2 a = pad2 b \<Longrightarrow> a = b"
proof -
  assume a: "a < 100" and b: "b < 100" and eq: "pad2 a = pad2 b"
  from a b have q: "a div 10 < 10" "b div 10 < 10" "a mod 10 < 10" "b mod 10 < 10" by auto
  from eq have "digit_char (a div 10) = digit_char (b div 10)"
    and "digit_char (a mod 10) = digit_char (b mod 10)" by (simp_all add: pad2_def)
  then have "a div 10 = b div 10" and "a mod 10 = b mod 10"
    using q by (blast intro: digit_char_inj)+
  then show "a = b" by (metis div_mult_mod_eq)
qed

lemma length_pad2 [simp]: "length (pad2 n) = 2"
  by (simp add: pad2_def)

lemma length_pad4 [simp]: "length (pad4 n) = 4"
  by (simp add: pad4_def)

lemma pad4_inj: "a < 10000 \<Longrightarrow> b < 10000 \<Longrightarrow> pad4 a = pad4 b \<Longrightarrow> a = b"
proof -
  assume a: "a < 10000" and b: "b < 10000" and eq: "pad4 a = pad4 b"
  from a b have q: "a div 100 < 100" "b div 100 < 100" "a mod 100 < 100" "b mod 100 < 100"
    by auto
  from eq have "pad2 (a div 100) = pad2 (b div 100)" and "pad2 (a mod 100) = pad2 (b mod 100)"
    by (simp_all add: pad4_def)
  then have "a div 100 = b div 100" and "a mod 100 = b mod 100"
    using q by (blast intro: pad2_inj)+
  then show "a = b" by (metis div_mult_mod_eq)
qed

lemma length_strftime [simp]: "length (strftime d) = 15"
  by (simp add: strftime_def)

lemma strftime_inj:
  assumes "valid_datetime d1" and "valid_datetime d2" and "strftime d1 = strftime d2"
  shows "d1 = d2"
proof -
  from assms(3) have "pad4 (year d1) = pad4 (year d2)" "pad2 (month d1) = pad2 (month d2)"
    "pad2 (day d1) = pad2 (day d2)" "pad2 (hour d1) = pad2 (hour d2)"
    "pad2 (minute d1) = pad2 (minute d2)" "pad2 (second d1) = pad2 (second d2)"
    by (simp_all add: strftime_def)
  with assms(1,2) have "year d1 = year d2" "month d1 = month d2" "day d1 = day d2"
    "hour d1 = hour d2" "minute d1 = minute d2" "second d1 = second d2"
    by (auto simp: valid_datetime_def intro: pad2_inj pad4_inj)
  then show ?thesis by simp
qed

lemma pad2_no_slash: "n < 100 \<Longrightarrow> CHR ''/'' \<notin> set (pad2 n)"
proof -
  assume "n < 100"
  then have q1: "n div 10 < 10" and q2: "n mod 10 < 10" by auto
  show ?thesis
    using digit_char_not_slash [OF q1] digit_char_not_slash [OF q2] by (auto simp: pad2_def)
qed

lemma pad4_no_slash: "n < 10000 \<Longrightarrow> CHR ''/'' \<notin> set (pad4 n)"
proof -
  assume "n < 10000"
  then have q1: "n div 100 < 100" and q2: "n mod 100 < 100" by auto
  show ?thesis
    using pad2_no_slash [OF q1] pad2_no_slash [OF q2] by (simp add: pad4_def)
qed

lemma strftime_no_slash: "valid_datetime d \<Longrightarrow> CHR ''/'' \<notin> set (strftime d)"
  by (simp add: strftime_def valid_datetime_def pad2_no_slash pad4_no_slash)

lemma split_slash_no_slash: "CHR ''/'' \<notin> set s \<Longrightarrow> split_slash s = [s]"
  by (induction s) auto

lemma splitroot_no_slash: "CHR ''/'' \<notin> set s \<Longrightarrow> splitroot s = []"
  by (cases s) (auto simp: splitroot_def)

lemma path_join_single:
  assumes "CHR ''/'' \<notin> set s" and "s \<noteq> []" and "s \<noteq> ''.''"
  shows "path_join p s = \<lparr>root = root p, names = names p @ [s]\<rparr>"
  using assms
  by (simp add: path_join_def parse_path_def split_slash_no_slash splitroot_no_slash keep_name_def)

lemma output_path_single:
  assumes "valid_datetime (now e)" and "CHR ''/'' \<notin> set f"
  shows "output_path e self f =
     \<lparr>root = root (output_dir self), names = names (output_dir self) @ [strftime (now e) @ ''_'' @ f]\<rparr>"
proof -
  let ?s = "strftime (now e) @ ''_'' @ f"
  have "CHR ''/'' \<notin> set ?s" using assms by (simp add: strftime_no_slash)
  moreover have len: "length ?s \<ge> 16" by simp
  then have "?s \<noteq> []" by auto
  moreover have "?s \<noteq> ''.''"
  proof
    assume "?s = ''.''"
    then have "length ?s = 1" by simp
    with len show False by simp
  qed
  ultimately show ?thesis unfolding output_path_def by (rule path_join_single)
qed

lemma output_path_distinct:
  assumes "valid_datetime (now e1)" and "valid_datetime (now e2)" and "now e1 \<noteq> now e2"
    and "CHR ''/'' \<notin> set f1" and "CHR ''/'' \<notin> set f2"
  shows "output_path e1 self1 f1 \<noteq> output_path e2 self2 f2"
proof
  assume eq: "output_path e1 self1 f1 = output_path e2 self2 f2"
  then have "names (output_path e1 self1 f1) = names (output_path e2 self2 f2)" by simp
  then have "strftime (now e1) @ ''_'' @ f1 = strftime (now e2) @ ''_'' @ f2"
    using assms by (simp add: output_path_single)
  then have "strftime (now e1) = strftime (now e2)"
    by simp
  with assms(1,2) have "now e1 = now e2" by (rule strftime_inj)
  with assms(3) show False by simp
qed

lemma digit_char_not_lf: "d < 10 \<Longrightarrow> digit_char d \<noteq> CHR 0x0A"
proof
  assume d: "d < 10" and eq: "digit_char d = CHR 0x0A"
  from eq have "(of_char (digit_char d) :: nat) = of_char (CHR 0x0A)" by simp
  with d show False by (simp add: digit_char_def)
qed

lemma pad2_no_lf: "n < 100 \<Longrightarrow> CHR 0x0A \<notin> set (pad2 n)"
proof -
  assume "n < 100"
  then have q1: "n div 10 < 10" and q2: "n mod 10 < 10" by auto
  show ?thesis
    using digit_char_not_lf [OF q1] digit_char_not_lf [OF q2] by (auto simp: pad2_def)
qed

lemma pad4_no_lf: "n < 10000 \<Longrightarrow> CHR 0x0A \<notin> set (pad4 n)"
proof -
  assume "n < 10000"
  then have q1: "n div 100 < 100" and q2: "n mod 100 < 100" by auto
  show ?thesis
    using pad2_no_lf [OF q1] pad2_no_lf [OF q2] by (simp add: pad4_def)
qed

lemma strftime_no_lf: "valid_datetime d \<Longrightarrow> CHR 0x0A \<notin> set (strftime d)"
  by (simp add: strftime_def valid_datetime_def pad2_no_lf pad4_no_lf)

section \<open>The log file\<close>

lemma files_stream_output_prefix:
  "files w p = Some c \<Longrightarrow> \<exists>r. files (snd (stream_output p intr i ls w)) p = Some (c @ r)"
proof (induction ls arbitrary: i w c)
  case Nil
  then show ?case by (auto split: option.splits interruption.splits)
next
  case (Cons l ls)
  have step: "files (fwrite p l (print_end l [] w)) p = Some (c @ l)"
    using Cons.prems by (simp add: files_fwrite_same)
  from Cons.IH [OF step, of "Suc i"] obtain r
    where r: "files (snd (stream_output p intr (Suc i) ls (fwrite p l (print_end l [] w)))) p
                = Some (c @ l @ r)"
    by auto
  show ?case
    using Cons.prems r by (auto split: option.splits interruption.splits)
qed

lemma files_run_command_prefix:
  assumes "open_raises e (output_path e self f) = None"
  shows "\<exists>rest. files (snd (run_command e self cmd f w)) (output_path e self f) =
           Some (concat (header e self cmd) @ rest)"
proof (cases "spawn e cmd")
  case (SpawnRaises x)
  with assms show ?thesis
    by (simp add: run_command_not_spawned files_header_written)
next
  case (Spawned ch)
  let ?p = "output_path e self f"
  let ?w3 = "write_all ?p (header e self cmd)
        (fopen_w ?p (print (''[*] Saving to: '' @ str_path ?p)
            (print (nl @ ''[+] Running: '' @ str_join '' '' cmd) w)))"
  obtain r w4 where s: "stream_output ?p (interrupted ch) 0 (read_lines ch) ?w3 = (r, w4)"
    by (cases "stream_output ?p (interrupted ch) 0 (read_lines ch) ?w3")
  have "files ?w3 ?p = Some (concat (header e self cmd))"
    by (rule files_header_written)
  from files_stream_output_prefix [OF this, of "interrupted ch" 0 "read_lines ch"] s
  obtain rest where "files w4 ?p = Some (concat (header e self cmd) @ rest)"
    by auto
  then show ?thesis
    using assms Spawned s
    by (simp add: run_command_def Let_def split: option.splits interruption.splits)
qed

lemma split_lines_line:
  "CHR 0x0A \<notin> set s \<Longrightarrow> split_lines (s @ CHR 0x0A # rest) = (s @ [CHR 0x0A]) # split_lines rest"
  by (induction s) auto

lemma universal_newlines_without_cr:
  "CHR 0x0D \<notin> set s \<Longrightarrow> universal_newlines s = s"
  by (induction s rule: universal_newlines.induct) auto

lemma header_lines:
  assumes "valid_datetime (now e)" and "CHR 0x0A \<notin> set (str_join '' '' cmd)"
    and "CHR 0x0A \<notin> set (target self)"
  shows "split_lines (concat (header e self cmd) @ rest) =
     [''# Command: '' @ str_join '' '' cmd @ [CHR 0x0A],
      ''# Timestamp: '' @ strftime (now e) @ [CHR 0x0A],
      ''# Target: '' @ target self @ [CHR 0x0A],
      ''#'' @ replicate 70 CHR ''='' @ [CHR 0x0A],
      [CHR 0x0A]] @ split_lines rest"
proof -
  have a: "CHR 0x0A \<notin> set (''# Command: '' @ str_join '' '' cmd)"
    using assms(2) by simp
  have b: "CHR 0x0A \<notin> set (''# Timestamp: '' @ strftime (now e))"
    using strftime_no_lf [OF assms(1)] by simp
  have c: "CHR 0x0A \<notin> set (''# Target: '' @ target self)"
    using assms(3) by simp
  have d: "CHR 0x0A \<notin> set (''#'' @ replicate 70 CHR ''='')"
    by simp
  have "concat (header e self cmd) @ rest =
      (''# Command: '' @ str_join '' '' cmd) @ CHR 0x0A #
      (''# Timestamp: '' @ strftime (now e)) @ CHR 0x0A #
      (''# Target: '' @ target self) @ CHR 0x0A #
      (''#'' @ replicate 70 CHR ''='') @ CHR 0x0A # CHR 0x0A # rest"
    by (simp add: concat_header nl_def)
  then show ?thesis
    by (simp only: split_lines_line [OF a] split_lines_line [OF b] split_lines_line [OF c]
        split_lines_line [OF d]) simp
qed

lemma files_run_command_complete:
  assumes "open_raises e (output_path e self f) = None" and "spawn e cmd = Spawned ch"
    and "interrupted ch = None"
  shows "files (snd (run_command e self cmd f w)) (output_path e self f) =
           Some (concat (header e self cmd) @ universal_newlines (raw_output ch))"
  using assms
  by (simp add: run_command_spawned files_stream_output_same [OF files_header_written]
      read_lines_def concat_split_lines)

lemma header_demo:
  "concat (header (demo_env sp) \<lparr>target = t, mode = ''ctf'', output_dir = d\<rparr>
             (nmap_ctf_cmd \<lparr>target = t, mode = ''ctf'', output_dir = d\<rparr>)) =
     ''# Command: nmap -sC -sV -Pn -T4 '' @ t @ ''\<newline># Timestamp: 20240307_090500\<newline># Target: '' @ t @
     ''\<newline>#'' @ replicate 70 CHR ''='' @ ''\<newline>\<newline>''"
  by (simp add: concat_header nmap_ctf_cmd_def demo_env_def strftime_demo_now nl_def)

text \<open>
  C8, as the code has it. Whenever the log file was opened, it begins with the four
  header writes: the command line, the timestamp, the target and the separator line,
  each ended by a line feed, then one more line feed. They are four lines and an empty
  one when neither the command line nor the target holds a line feed and the clock shows
  a valid date and time. When the child was started and nothing raised while its output
  was read and logged and while it was waited for, what follows is all of the child's
  output with every \<open>CR LF\<close> and \<open>CR\<close> turned into \<open>LF\<close>, which is the
  output itself when it holds no \<open>CR\<close>.
\<close>

theorem log_file_content:
  assumes "open_raises e (output_path e self f) = None"
  shows
    "concat (header e self cmd) =
       ''# Command: '' @ str_join '' '' cmd @ [CHR 0x0A] @
       ''# Timestamp: '' @ strftime (now e) @ [CHR 0x0A] @
       ''# Target: '' @ target self @ [CHR 0x0A] @
       ''#'' @ replicate 70 CHR ''='' @ [CHR 0x0A] @
       [CHR 0x0A] \<and>
     (\<exists>rest. files (snd (run_command e self cmd f w)) (output_path e self f) =
        Some (concat (header e self cmd) @ rest)) \<and>
     (spawn e cmd = Spawned ch \<and> interrupted ch = None \<longrightarrow>
        files (snd (run_command e self cmd f w)) (output_path e self f) =
          Some (concat (header e self cmd) @ universal_newlines (raw_output ch))) \<and>
     (CHR 0x0D \<notin> set (raw_output ch) \<longrightarrow> universal_newlines (raw_output ch) = raw_output ch) \<and>
     (valid_datetime (now e) \<and> CHR 0x0A \<notin> set (str_join '' '' cmd) \<and>
      CHR 0x0A \<notin> set (target self) \<longrightarrow>
        split_lines (concat (header e self cmd) @ body) =
          [''# Command: '' @ str_join '' '' cmd @ [CHR 0x0A],
           ''# Timestamp: '' @ strftime (now e) @ [CHR 0x0A],
           ''# Target: '' @ target self @ [CHR 0x0A],
           ''#'' @ replicate 70 CHR ''='' @ [CHR 0x0A],
           [CHR 0x0A]] @ split_lines body)"
proof (intro conjI impI)
  show "concat (header e self cmd) =
       ''# Command: '' @ str_join '' '' cmd @ [CHR 0x0A] @
       ''# Timestamp: '' @ strftime (now e) @ [CHR 0x0A] @
       ''# Target: '' @ target self @ [CHR 0x0A] @
       ''#'' @ replicate 70 CHR ''='' @ [CHR 0x0A] @
       [CHR 0x0A]"
    by (simp add: concat_header nl_def)
next
  show "\<exists>rest. files (snd (run_command e self cmd f w)) (output_path e self f) =
        Some (concat (header e self cmd) @ rest)"
    using assms by (rule files_run_command_prefix)
next
  assume "spawn e cmd = Spawned ch \<and> interrupted ch = None"
  then show "files (snd (run_command e self cmd f w)) (output_path e self f) =
          Some (concat (header e self cmd) @ universal_newlines (raw_output ch))"
    using assms by (simp add: files_run_command_complete)
next
  assume "CHR 0x0D \<notin> set (raw_output ch)"
  then show "universal_newlines (raw_output ch) = raw_output ch"
    by (rule universal_newlines_without_cr)
next
  assume "valid_datetime (now e) \<and> CHR 0x0A \<notin> set (str_join '' '' cmd) \<and>
      CHR 0x0A \<notin> set (target self)"
  then show "split_lines (concat (header e self cmd) @ body) =
          [''# Command: '' @ str_join '' '' cmd @ [CHR 0x0A],
           ''# Timestamp: '' @ strftime (now e) @ [CHR 0x0A],
           ''# Target: '' @ target self @ [CHR 0x0A],
           ''#'' @ replicate 70 CHR ''='' @ [CHR 0x0A],
           [CHR 0x0A]] @ split_lines body"
    by (simp add: header_lines)
qed

theorem log_file_content_witness:
  "open_raises (demo_env (scan_exits 0))
     (output_path (demo_env (scan_exits 0)) demo_self ''nmap_ctf.txt'') = None \<and>
   spawn (demo_env (scan_exits 0)) (nmap_ctf_cmd demo_self) = Spawned (demo_child 0) \<and>
   interrupted (demo_child 0) = None \<and>
   CHR 0x0D \<notin> set (raw_output (demo_child 0)) \<and>
   valid_datetime (now (demo_env (scan_exits 0))) \<and>
   CHR 0x0A \<notin> set (str_join '' '' (nmap_ctf_cmd demo_self)) \<and>
   CHR 0x0A \<notin> set (target demo_self) \<and>
   files (snd (run_command (demo_env (scan_exits 0)) demo_self (nmap_ctf_cmd demo_self)
            ''nmap_ctf.txt'' empty_world))
     (output_path (demo_env (scan_exits 0)) demo_self ''nmap_ctf.txt'') =
     Some (''# Command: nmap -sC -sV -Pn -T4 10.10.10.1\<newline>'' @
           ''# Timestamp: 20240307_090500\<newline>'' @
           ''# Target: 10.10.10.1\<newline>'' @
           ''#'' @ replicate 70 CHR ''='' @ ''\<newline>'' @
           ''\<newline>'' @
           ''Starting Nmap\<newline>Nmap done\<newline>'') \<and>
   split_lines (concat (header (demo_env (scan_exits 0)) demo_self (nmap_ctf_cmd demo_self)) @
                raw_output (demo_child 0)) =
     [''# Command: nmap -sC -sV -Pn -T4 10.10.10.1\<newline>'',
      ''# Timestamp: 20240307_090500\<newline>'',
      ''# Target: 10.10.10.1\<newline>'',
      ''#'' @ replicate 70 CHR ''='' @ ''\<newline>'',
      ''\<newline>'',
      ''Starting Nmap\<newline>'',
      ''Nmap done\<newline>'']"
proof -
  let ?e = "demo_env (scan_exits 0)"
  have o: "open_raises ?e (output_path ?e demo_self ''nmap_ctf.txt'') = None"
    by (simp add: demo_env_def)
  have s: "spawn ?e (nmap_ctf_cmd demo_self) = Spawned (demo_child 0)"
    by (simp add: demo_env_def scan_exits_def nmap_ctf_cmd_def preflight_cmd_def)
  have i: "interrupted (demo_child 0) = None"
    by (simp add: demo_child_def)
  have c: "CHR 0x0D \<notin> set (raw_output (demo_child 0))"
    by (simp add: demo_child_def)
  have v: "valid_datetime (now ?e)"
    by (simp add: demo_env_def demo_now_def valid_datetime_def)
  have l1: "CHR 0x0A \<notin> set (str_join '' '' (nmap_ctf_cmd demo_self))"
    by (simp add: nmap_ctf_cmd_def demo_self_def)
  have l2: "CHR 0x0A \<notin> set (target demo_self)"
    by (simp add: demo_self_def)
  have t: "strftime (now ?e) = ''20240307_090500''"
    by (simp add: demo_env_def strftime_demo_now)
  have j: "str_join '' '' (nmap_ctf_cmd demo_self) = ''nmap -sC -sV -Pn -T4 10.10.10.1''"
    by (simp add: nmap_ctf_cmd_def demo_self_def)
  have g: "target demo_self = ''10.10.10.1''"
    by (simp add: demo_self_def)
  have r: "raw_output (demo_child 0) = ''Starting Nmap\<newline>Nmap done\<newline>''"
    by (simp add: demo_child_def)
  note th = log_file_content [OF o, of "nmap_ctf_cmd demo_self" empty_world "demo_child 0"
      "raw_output (demo_child 0)"]
  have h: "concat (header ?e demo_self (nmap_ctf_cmd demo_self)) =
      ''# Command: nmap -sC -sV -Pn -T4 10.10.10.1\<newline>'' @
      ''# Timestamp: 20240307_090500\<newline>'' @
      ''# Target: 10.10.10.1\<newline>'' @
      ''#'' @ replicate 70 CHR ''='' @ ''\<newline>'' @
      ''\<newline>''"
    using th by (simp add: t j g)
  have u: "universal_newlines (raw_output (demo_child 0)) = raw_output (demo_child 0)"
    using th c by blast
  have f: "files (snd (run_command ?e demo_self (nmap_ctf_cmd demo_self) ''nmap_ctf.txt''
                         empty_world))
             (output_path ?e demo_self ''nmap_ctf.txt'') =
           Some (concat (header ?e demo_self (nmap_ctf_cmd demo_self)) @
                 universal_newlines (raw_output (demo_child 0)))"
    using th s i by blast
  have sp: "split_lines (concat (header ?e demo_self (nmap_ctf_cmd demo_self)) @
                raw_output (demo_child 0)) =
          [''# Command: '' @ str_join '' '' (nmap_ctf_cmd demo_self) @ [CHR 0x0A],
           ''# Timestamp: '' @ strftime (now ?e) @ [CHR 0x0A],
           ''# Target: '' @ target demo_self @ [CHR 0x0A],
           ''#'' @ replicate 70 CHR ''='' @ [CHR 0x0A],
           [CHR 0x0A]] @ split_lines (raw_output (demo_child 0))"
    using th v l1 l2 by blast
  have f': "files (snd (run_command ?e demo_self (nmap_ctf_cmd demo_self) ''nmap_ctf.txt''
                         empty_world))
             (output_path ?e demo_self ''nmap_ctf.txt'') =
     Some (''# Command: nmap -sC -sV -Pn -T4 10.10.10.1\<newline>'' @
           ''# Timestamp: 20240307_090500\<newline>'' @
           ''# Target: 10.10.10.1\<newline>'' @
           ''#'' @ replicate 70 CHR ''='' @ ''\<newline>'' @
           ''\<newline>'' @
           ''Starting Nmap\<newline>Nmap done\<newline>'')"
    unfolding f u h r by simp
  have sp': "split_lines (concat (header ?e demo_self (nmap_ctf_cmd demo_self)) @
                raw_output (demo_child 0)) =
     [''# Command: nmap -sC -sV -Pn -T4 10.10.10.1\<newline>'',
      ''# Timestamp: 20240307_090500\<newline>'',
      ''# Target: 10.10.10.1\<newline>'',
      ''#'' @ replicate 70 CHR ''='' @ ''\<newline>'',
      ''\<newline>'',
      ''Starting Nmap\<newline>'',
      ''Nmap done\<newline>'']"
    unfolding sp by (simp add: t j g r)
  show ?thesis
    by (intro conjI) (rule o s i c v l1 l2 f' sp')+
qed

text \<open>
  The claim as the specification words it fails on both counts. A target that holds a
  line feed is written as it is, in the command line and in the target line, so the
  header takes six lines before the empty one. And a child that ends its lines with
  \<open>CR LF\<close> is logged with \<open>LF\<close> alone: what follows the header is not the bytes the
  child wrote.
\<close>

theorem log_file_not_raw_counterexample:
  "map_option split_lines
     (files (snd (run_command (demo_env (scan_exits 0)) two_line_self
                    (nmap_ctf_cmd two_line_self) ''nmap_ctf.txt'' empty_world))
        (output_path (demo_env (scan_exits 0)) two_line_self ''nmap_ctf.txt'')) =
     Some [''# Command: nmap -sC -sV -Pn -T4 a\<newline>'',
           ''b\<newline>'',
           ''# Timestamp: 20240307_090500\<newline>'',
           ''# Target: a\<newline>'',
           ''b\<newline>'',
           ''#'' @ replicate 70 CHR ''='' @ ''\<newline>'',
           ''\<newline>'',
           ''Starting Nmap\<newline>'',
           ''Nmap done\<newline>''] \<and>
   raw_output crlf_child = ''PORT STATE'' @ [CHR 0x0D, CHR 0x0A] @ ''22/tcp open\<newline>'' \<and>
   files (snd (run_command (demo_env scan_crlf) demo_self (nmap_ctf_cmd demo_self)
                 ''nmap_ctf.txt'' empty_world))
     (output_path (demo_env scan_crlf) demo_self ''nmap_ctf.txt'') =
     Some (''# Command: nmap -sC -sV -Pn -T4 10.10.10.1\<newline>'' @
           ''# Timestamp: 20240307_090500\<newline>'' @
           ''# Target: 10.10.10.1\<newline>'' @
           ''#'' @ replicate 70 CHR ''='' @ ''\<newline>'' @
           ''\<newline>'' @
           ''PORT STATE\<newline>22/tcp open\<newline>'') \<and>
   ''PORT STATE\<newline>22/tcp open\<newline>'' \<noteq> raw_output crlf_child"
proof -
  let ?e = "demo_env (scan_exits 0)"
  have o: "open_raises ?e (output_path ?e two_line_self ''nmap_ctf.txt'') = None"
    by (simp add: demo_env_def)
  have s: "spawn ?e (nmap_ctf_cmd two_line_self) = Spawned (demo_child 0)"
    by (simp add: demo_env_def scan_exits_def nmap_ctf_cmd_def preflight_cmd_def)
  have i: "interrupted (demo_child 0) = None"
    by (simp add: demo_child_def)
  have sl: "split_lines (''# Command: nmap -sC -sV -Pn -T4 a\<newline>b\<newline>'' @
              ''# Timestamp: 20240307_090500\<newline># Target: a\<newline>b\<newline>#'' @
              replicate 70 CHR ''='' @ ''\<newline>\<newline>Starting Nmap\<newline>Nmap done\<newline>'') =
          [''# Command: nmap -sC -sV -Pn -T4 a\<newline>'',
           ''b\<newline>'',
           ''# Timestamp: 20240307_090500\<newline>'',
           ''# Target: a\<newline>'',
           ''b\<newline>'',
           ''#'' @ replicate 70 CHR ''='' @ ''\<newline>'',
           ''\<newline>'',
           ''Starting Nmap\<newline>'',
           ''Nmap done\<newline>'']"
    by code_simp
  have a: "files (snd (run_command ?e two_line_self (nmap_ctf_cmd two_line_self)
                    ''nmap_ctf.txt'' empty_world))
        (output_path ?e two_line_self ''nmap_ctf.txt'') =
      Some (''# Command: nmap -sC -sV -Pn -T4 a\<newline>b\<newline>'' @
              ''# Timestamp: 20240307_090500\<newline># Target: a\<newline>b\<newline>#'' @
              replicate 70 CHR ''='' @ ''\<newline>\<newline>Starting Nmap\<newline>Nmap done\<newline>'')"
    unfolding files_run_command_complete [OF o s i]
    by (simp add: two_line_self_def header_demo demo_child_def)
  have a2: "map_option split_lines
     (files (snd (run_command ?e two_line_self (nmap_ctf_cmd two_line_self)
                    ''nmap_ctf.txt'' empty_world))
        (output_path ?e two_line_self ''nmap_ctf.txt'')) =
     Some [''# Command: nmap -sC -sV -Pn -T4 a\<newline>'',
           ''b\<newline>'',
           ''# Timestamp: 20240307_090500\<newline>'',
           ''# Target: a\<newline>'',
           ''b\<newline>'',
           ''#'' @ replicate 70 CHR ''='' @ ''\<newline>'',
           ''\<newline>'',
           ''Starting Nmap\<newline>'',
           ''Nmap done\<newline>'']"
    by (simp only: a option.map sl)
  have o': "open_raises (demo_env scan_crlf)
      (output_path (demo_env scan_crlf) demo_self ''nmap_ctf.txt'') = None"
    by (simp add: demo_env_def)
  have s': "spawn (demo_env scan_crlf) (nmap_ctf_cmd demo_self) = Spawned crlf_child"
    by (simp add: demo_env_def scan_crlf_def nmap_ctf_cmd_def preflight_cmd_def)
  have i': "interrupted crlf_child = None"
    by (simp add: crlf_child_def)
  have b: "files (snd (run_command (demo_env scan_crlf) demo_self (nmap_ctf_cmd demo_self)
                 ''nmap_ctf.txt'' empty_world))
     (output_path (demo_env scan_crlf) demo_self ''nmap_ctf.txt'') =
     Some (''# Command: nmap -sC -sV -Pn -T4 10.10.10.1\<newline>'' @
           ''# Timestamp: 20240307_090500\<newline>'' @
           ''# Target: 10.10.10.1\<newline>'' @
           ''#'' @ replicate 70 CHR ''='' @ ''\<newline>'' @
           ''\<newline>'' @
           ''PORT STATE\<newline>22/tcp open\<newline>'')"
    unfolding files_run_command_complete [OF o' s' i']
    by (simp add: demo_self_def header_demo crlf_child_def)
  have r: "raw_output crlf_child = ''PORT STATE'' @ [CHR 0x0D, CHR 0x0A] @ ''22/tcp open\<newline>''"
    by (simp add: crlf_child_def)
  have n: "''PORT STATE\<newline>22/tcp open\<newline>'' \<noteq> raw_output crlf_child"
    by (simp add: crlf_child_def)
  show ?thesis
    by (intro conjI) (rule a2 r b n)+
qed

text \<open>
  C10. When the child process cannot be started, the log file has already been created:
  after \<open>run_command\<close> has returned \<open>False\<close>, the file at the output path holds the
  header and nothing else.
\<close>

theorem header_only_log_on_spawn_failure:
  assumes "open_raises e (output_path e self f) = None" and "spawn e cmd = SpawnRaises x"
  shows "fst (run_command e self cmd f w) = False \<and>
     files (snd (run_command e self cmd f w)) (output_path e self f) =
     Some (''# Command: '' @ str_join '' '' cmd @ nl @
           ''# Timestamp: '' @ strftime (now e) @ nl @
           ''# Target: '' @ target self @ nl @
           ''#'' @ replicate 70 CHR ''='' @ nl @
           nl)"
  using assms
  by (simp add: run_command_not_spawned files_header_written concat_header)

theorem header_only_log_on_spawn_failure_witness:
  "open_raises (demo_env scan_not_spawned)
     (output_path (demo_env scan_not_spawned) demo_self ''nmap_ctf.txt'') = None \<and>
   spawn (demo_env scan_not_spawned) (nmap_ctf_cmd demo_self) =
     SpawnRaises (OtherException ''[Errno 13] Permission denied'') \<and>
   fst (run_command (demo_env scan_not_spawned) demo_self (nmap_ctf_cmd demo_self)
          ''nmap_ctf.txt'' empty_world) = False \<and>
   files (snd (run_command (demo_env scan_not_spawned) demo_self (nmap_ctf_cmd demo_self)
            ''nmap_ctf.txt'' empty_world))
     (output_path (demo_env scan_not_spawned) demo_self ''nmap_ctf.txt'') =
     Some (''# Command: nmap -sC -sV -Pn -T4 10.10.10.1'' @ nl @
           ''# Timestamp: 20240307_090500'' @ nl @
           ''# Target: 10.10.10.1'' @ nl @
           ''#'' @ replicate 70 CHR ''='' @ nl @
           nl)"
proof -
  have o: "open_raises (demo_env scan_not_spawned)
     (output_path (demo_env scan_not_spawned) demo_self ''nmap_ctf.txt'') = None"
    by (simp add: demo_env_def)
  have s: "spawn (demo_env scan_not_spawned) (nmap_ctf_cmd demo_self) =
     SpawnRaises (OtherException ''[Errno 13] Permission denied'')"
    by (simp add: demo_env_def scan_not_spawned_def nmap_ctf_cmd_def preflight_cmd_def)
  have t: "strftime (now (demo_env scan_not_spawned)) = ''20240307_090500''"
    by (simp add: demo_env_def strftime_demo_now)
  show ?thesis
    using header_only_log_on_spawn_failure [OF o s, of empty_world] o s
    by (simp add: t nmap_ctf_cmd_def demo_self_def)
qed

section \<open>Log paths of different runs\<close>

text \<open>
  C7. Two runs that start at different seconds write to different paths, whatever their
  targets and modes are, the same ones included; so the later run leaves the earlier
  run's log file as it was.
\<close>

theorem log_paths_never_collide:
  assumes "valid_datetime (now e1)" and "valid_datetime (now e2)" and "now e1 \<noteq> now e2"
    and "CHR ''/'' \<notin> set f1" and "CHR ''/'' \<notin> set f2"
  shows "output_path e1 self1 f1 \<noteq> output_path e2 self2 f2 \<and>
         files (snd (run_command e2 self2 cmd2 f2 w)) (output_path e1 self1 f1) =
           files w (output_path e1 self1 f1)"
  using output_path_distinct [OF assms] by (simp add: files_run_command_other)

theorem log_paths_never_collide_witness:
  "valid_datetime (now (demo_env (scan_exits 0))) \<and>
   valid_datetime (now ((demo_env (scan_exits 0))\<lparr>now := demo_later\<rparr>)) \<and>
   now (demo_env (scan_exits 0)) \<noteq> now ((demo_env (scan_exits 0))\<lparr>now := demo_later\<rparr>) \<and>
   CHR ''/'' \<notin> set ''nmap_ctf.txt'' \<and>
   output_path (demo_env (scan_exits 0)) demo_self ''nmap_ctf.txt'' \<noteq>
     output_path ((demo_env (scan_exits 0))\<lparr>now := demo_later\<rparr>) demo_self ''nmap_ctf.txt'' \<and>
   files (snd (run_command ((demo_env (scan_exits 0))\<lparr>now := demo_later\<rparr>) demo_self
                 (nmap_ctf_cmd demo_self) ''nmap_ctf.txt''
                 (snd (run_command (demo_env (scan_exits 0)) demo_self (nmap_ctf_cmd demo_self)
                         ''nmap_ctf.txt'' empty_world))))
     (output_path (demo_env (scan_exits 0)) demo_self ''nmap_ctf.txt'') =
   files (snd (run_command (demo_env (scan_exits 0)) demo_self (nmap_ctf_cmd demo_self)
                 ''nmap_ctf.txt'' empty_world))
     (output_path (demo_env (scan_exits 0)) demo_self ''nmap_ctf.txt'')"
proof -
  have v1: "valid_datetime (now (demo_env (scan_exits 0)))"
    by (simp add: demo_env_def demo_now_def valid_datetime_def)
  have v2: "valid_datetime (now ((demo_env (scan_exits 0))\<lparr>now := demo_later\<rparr>))"
    by (simp add: demo_later_def valid_datetime_def)
  have d: "now (demo_env (scan_exits 0)) \<noteq> now ((demo_env (scan_exits 0))\<lparr>now := demo_later\<rparr>)"
    by (simp add: demo_env_def demo_now_def demo_later_def)
  have f: "CHR ''/'' \<notin> set ''nmap_ctf.txt''"
    by simp
  show ?thesis
    using log_paths_never_collide [OF v1 v2 d f f] v1 v2 d f by simp
qed

section \<open>Exceptions after the spawn\<close>

text \<open>
  What the \<open>except\<close> clause of \<open>run_command\<close> does with an exception raised after the
  child was started: whichever statement raises, the error line is printed last and
  \<open>False\<close> is returned; the exit code is not looked at.
\<close>

lemma stream_output_read_raises:
  "i \<le> n \<Longrightarrow> fst (stream_output p (Some (ReadRaises n x)) i ls w) = Some x"
  by (induction ls arbitrary: i w) auto

lemma stream_output_write_raises:
  "i \<le> n \<Longrightarrow> n < i + length ls \<Longrightarrow>
     fst (stream_output p (Some (WriteRaises n x)) i ls w) = Some x"
  by (induction ls arbitrary: i w) auto

lemma stream_output_wait_raises:
  "stream_output p (Some (WaitRaises x)) i ls w = stream_output p None i ls w"
  by (induction ls arbitrary: i w) auto

lemma run_command_stream_raises:
  assumes "open_raises e (output_path e self f) = None" and "spawn e cmd = Spawned ch"
    and "fst (stream_output (output_path e self f) (interrupted ch) 0 (read_lines ch)
           (write_all (output_path e self f) (header e self cmd) (fopen_w (output_path e self f)
             (print (''[*] Saving to: '' @ str_path (output_path e self f))
               (print (nl @ ''[+] Running: '' @ str_join '' '' cmd) w))))) = Some x"
  shows "fst (run_command e self cmd f w) = False \<and>
         last (console (snd (run_command e self cmd f w))) =
           ''['' @ ballot_x @ ''] Error running command: '' @ str_exception x @ nl"
proof -
  let ?w3 = "write_all (output_path e self f) (header e self cmd) (fopen_w (output_path e self f)
             (print (''[*] Saving to: '' @ str_path (output_path e self f))
               (print (nl @ ''[+] Running: '' @ str_join '' '' cmd) w)))"
  obtain r w4 where
    s: "stream_output (output_path e self f) (interrupted ch) 0 (read_lines ch) ?w3 = (r, w4)"
    by (cases "stream_output (output_path e self f) (interrupted ch) 0 (read_lines ch) ?w3")
  with assms(3) have r: "r = Some x" by simp
  show ?thesis
    using assms(1,2) s r by (simp add: run_command_def Let_def)
qed

lemma run_command_read_raises:
  assumes "open_raises e (output_path e self f) = None" and "spawn e cmd = Spawned ch"
    and "interrupted ch = Some (ReadRaises n x)"
  shows "fst (run_command e self cmd f w) = False \<and>
         last (console (snd (run_command e self cmd f w))) =
           ''['' @ ballot_x @ ''] Error running command: '' @ str_exception x @ nl"
  using assms(1,2)
  by (rule run_command_stream_raises) (simp add: assms(3) stream_output_read_raises)

lemma run_command_write_raises:
  assumes "open_raises e (output_path e self f) = None" and "spawn e cmd = Spawned ch"
    and "interrupted ch = Some (WriteRaises n x)" and "n < length (read_lines ch)"
  shows "fst (run_command e self cmd f w) = False \<and>
         last (console (snd (run_command e self cmd f w))) =
           ''['' @ ballot_x @ ''] Error running command: '' @ str_exception x @ nl"
  using assms(1,2)
  by (rule run_command_stream_raises) (simp add: assms(3,4) stream_output_write_raises)

lemma run_command_wait_raises:
  assumes "open_raises e (output_path e self f) = None" and "spawn e cmd = Spawned ch"
    and "interrupted ch = Some (WaitRaises x)"
  shows "fst (run_command e self cmd f w) = False \<and>
         console (snd (run_command e self cmd f w)) =
           console w @
           [nl @ ''[+] Running: '' @ str_join '' '' cmd @ nl,
            ''[*] Saving to: '' @ str_path (output_path e self f) @ nl] @
           read_lines ch @
           [''['' @ ballot_x @ ''] Error running command: '' @ str_exception x @ nl]"
proof -
  let ?w3 = "write_all (output_path e self f) (header e self cmd) (fopen_w (output_path e self f)
             (print (''[*] Saving to: '' @ str_path (output_path e self f))
               (print (nl @ ''[+] Running: '' @ str_join '' '' cmd) w)))"
  obtain r w4 where
    s: "stream_output (output_path e self f) None 0 (read_lines ch) ?w3 = (r, w4)"
    by (cases "stream_output (output_path e self f) None 0 (read_lines ch) ?w3")
  have "fst (stream_output (output_path e self f) None 0 (read_lines ch) ?w3) = None"
    by simp
  with s have r: "r = None" by simp
  have "console (snd (stream_output (output_path e self f) None 0 (read_lines ch) ?w3)) =
          console ?w3 @ read_lines ch"
    by simp
  with s have c: "console w4 = console ?w3 @ read_lines ch" by simp
  have "run_command e self cmd f w = (False, report_exception x w4)"
    using assms s r by (simp add: run_command_def Let_def stream_output_wait_raises)
  then show ?thesis
    by (simp add: c)
qed

section \<open>The whole program\<close>

lemma run_main_preflight_ok:
  assumes "check_nmap e = PreflightOk"
    and "Enumerator e (arg_target a) (arg_mode a) w = (Inr self, w1)"
  shows "run_main e a w = (Returned, run_enumeration e self w1)"
  using assms by (simp add: run_main_def)

lemma console_run_command_spawned:
  assumes "open_raises e (output_path e self f) = None" and "spawn e cmd = Spawned ch"
    and "interrupted ch = None"
  shows "console (snd (run_command e self cmd f w)) =
    console w @
    [nl @ ''[+] Running: '' @ str_join '' '' cmd @ nl,
     ''[*] Saving to: '' @ str_path (output_path e self f) @ nl] @
    read_lines ch @
    [(if returncode ch = 0 then ''['' @ check_mark @ ''] Completed successfully''
      else ''[!] Command exited with code '' @ str_int (returncode ch)) @ nl]"
  using assms by (simp add: run_command_spawned console_report_exit)

lemma console_run_enumeration_ctf:
  assumes "mode self = ''ctf''"
  shows "console (run_enumeration e self w) =
     console (snd (run_command e self (nmap_ctf_cmd self) ''nmap_ctf.txt''
        (print separator (print (''Target: '' @ target self)
          (print (''Smart Enumerator - '' @ upper (mode self) @ '' Mode'')
            (print (nl @ separator) w)))))) @
     [nl @ separator @ nl,
      ''['' @ check_mark @ ''] Enumeration complete!'' @ nl,
      ''[*] Results saved in: '' @ str_path (output_dir self) @ nl,
      separator @ nl @ nl]"
  using assms by (simp add: run_enumeration_def nmap_ctf_def Let_def)

lemma console_run_enumeration_real:
  assumes "mode self = ''real''"
  shows "console (run_enumeration e self w) =
     console (snd (run_command e self (nmap_realworld_cmd self) ''nmap_full.txt''
        (print separator (print (''Target: '' @ target self)
          (print (''Smart Enumerator - '' @ upper (mode self) @ '' Mode'')
            (print (nl @ separator) w)))))) @
     [nl @ separator @ nl,
      ''['' @ check_mark @ ''] Enumeration complete!'' @ nl,
      ''[*] Results saved in: '' @ str_path (output_dir self) @ nl,
      separator @ nl @ nl]"
  using assms by (simp add: run_enumeration_def nmap_realworld_def Let_def)

lemma enumerator_demo_env:
  "Enumerator (demo_env sp) t md w =
     (Inr \<lparr>target = t, mode = md, output_dir = path_join demo_home t\<rparr>,
      print (''[*] Output directory: '' @ str_path (path_join demo_home t))
        (mkdir_parents (path_join demo_home t) w))"
  by (simp add: Enumerator_def setup_output_dir_def demo_env_def)

lemma enumerator_demo:
  "Enumerator (demo_env sp) ''10.10.10.1'' ''ctf'' w =
     (Inr demo_self, print (''[*] Output directory: '' @ str_path (output_dir demo_self))
                       (mkdir_parents (output_dir demo_self) w))"
  by (simp add: enumerator_demo_env demo_self_def)

lemma parse_args_demo:
  "parse_args [''-t'', ''10.10.10.1'', ''-m'', ''ctf''] = Parsed demo_args"
  by (simp add: parse_args_def modelled_word_def is_value_def is_target_flag_def is_mode_flag_def
      mode_choices_def demo_args_def)

lemma consume_without_target:
  "\<not> list_ex is_target_flag argv \<Longrightarrow> t = None \<Longrightarrow> \<exists>u. consume argv t m ex = UsageError u"
  by (induction argv t m ex rule: consume.induct) auto

lemma str_path_demo_dir: "str_path (output_dir demo_self) = ''/home/kali/10.10.10.1''"
  by (simp add: demo_self_def demo_home_def path_join_def parse_path_def splitroot_def
      keep_name_def str_path_def)

lemma str_path_demo_log:
  "str_path (output_path (demo_env sp) demo_self ''nmap_ctf.txt'') =
     ''/home/kali/10.10.10.1/20240307_090500_nmap_ctf.txt''"
  by (simp add: output_path_def demo_env_def strftime_demo_now demo_self_def demo_home_def
      path_join_def parse_path_def splitroot_def keep_name_def str_path_def)

lemma upper_ctf: "upper ''ctf'' = ''CTF''"
  by code_simp

lemma check_nmap_demo: "sp preflight_cmd = Spawned (demo_child 0) \<Longrightarrow> check_nmap (demo_env sp) = PreflightOk"
  by (simp add: check_nmap_def demo_env_def demo_child_def)

lemma console_garbled_scan:
  "console (snd (run_command (demo_env scan_garbled) demo_self (nmap_ctf_cmd demo_self)
                   ''nmap_ctf.txt'' w)) =
     console w @
     [''\<newline>[+] Running: nmap -sC -sV -Pn -T4 10.10.10.1\<newline>'',
      ''[*] Saving to: /home/kali/10.10.10.1/20240307_090500_nmap_ctf.txt\<newline>'',
      ''Starting Nmap\<newline>'',
      ''['' @ ballot_x @ ''] Error running command: invalid start byte\<newline>'']"
proof -
  let ?e = "demo_env scan_garbled"
  have o: "open_raises ?e (output_path ?e demo_self ''nmap_ctf.txt'') = None"
    by (simp add: demo_env_def)
  have s: "spawn ?e (nmap_ctf_cmd demo_self) = Spawned garbled_child"
    by (simp add: demo_env_def scan_garbled_def nmap_ctf_cmd_def preflight_cmd_def)
  have l: "read_lines garbled_child = [''Starting Nmap\<newline>'', [CHR 0xFF, CHR 0x0A]]"
    by (simp add: read_lines_def garbled_child_def)
  have i: "interrupted garbled_child = Some (ReadRaises 1 (OtherException ''invalid start byte''))"
    by (simp add: garbled_child_def)
  have j: "str_join '' '' (nmap_ctf_cmd demo_self) = ''nmap -sC -sV -Pn -T4 10.10.10.1''"
    by (simp add: nmap_ctf_cmd_def demo_self_def)
  show ?thesis
    by (simp add: run_command_def Let_def o s l i j str_path_demo_log nl_def)
qed

text \<open>
  C4, as the code has it. When nothing raised while the scan's output was read and
  logged and while the child was waited for, and the exit code is not zero, the program prints
  the warning line with that code after the scan's output, goes on to print the
  completion banner with the output directory, and \<open>main\<close> returns normally, so the
  exit status is 0: the lines printed from the opening banner on are the ones below.
\<close>

theorem nonzero_exit_still_completes:
  assumes pre: "check_nmap e = PreflightOk"
    and en: "Enumerator e (arg_target a) (arg_mode a) w = (Inr self, w1)"
    and prof: "(mode self = ''ctf'' \<and> cmd = nmap_ctf_cmd self \<and> f = ''nmap_ctf.txt'') \<or>
               (mode self = ''real'' \<and> cmd = nmap_realworld_cmd self \<and> f = ''nmap_full.txt'')"
    and op: "open_raises e (output_path e self f) = None"
    and sp: "spawn e cmd = Spawned ch"
    and ni: "interrupted ch = None"
    and rc: "returncode ch \<noteq> 0"
  shows "fst (run_main e a w) = Returned \<and>
         exit_status (fst (run_main e a w)) = 0 \<and>
         console (snd (run_main e a w)) =
           console w1 @
           [nl @ separator @ nl,
            ''Smart Enumerator - '' @ upper (mode self) @ '' Mode'' @ nl,
            ''Target: '' @ target self @ nl,
            separator @ nl,
            nl @ ''[+] Running: '' @ str_join '' '' cmd @ nl,
            ''[*] Saving to: '' @ str_path (output_path e self f) @ nl] @
           read_lines ch @
           [''[!] Command exited with code '' @ str_int (returncode ch) @ nl,
            nl @ separator @ nl,
            ''['' @ check_mark @ ''] Enumeration complete!'' @ nl,
            ''[*] Results saved in: '' @ str_path (output_dir self) @ nl,
            separator @ nl @ nl]"
proof -
  have m: "run_main e a w = (Returned, run_enumeration e self w1)"
    using pre en by (rule run_main_preflight_ok)
  from prof show ?thesis
  proof
    assume c: "mode self = ''ctf'' \<and> cmd = nmap_ctf_cmd self \<and> f = ''nmap_ctf.txt''"
    with op sp ni rc show ?thesis
      by (simp add: m console_run_enumeration_ctf console_run_command_spawned)
  next
    assume c: "mode self = ''real'' \<and> cmd = nmap_realworld_cmd self \<and> f = ''nmap_full.txt''"
    with op sp ni rc show ?thesis
      by (simp add: m console_run_enumeration_real console_run_command_spawned)
  qed
qed

theorem nonzero_exit_still_completes_witness:
  "check_nmap (demo_env (scan_exits 137)) = PreflightOk \<and>
   Enumerator (demo_env (scan_exits 137)) (arg_target demo_args) (arg_mode demo_args) empty_world =
     (Inr demo_self, print (''[*] Output directory: '' @ str_path (output_dir demo_self))
                       (mkdir_parents (output_dir demo_self) empty_world)) \<and>
   mode demo_self = ''ctf'' \<and>
   open_raises (demo_env (scan_exits 137))
     (output_path (demo_env (scan_exits 137)) demo_self ''nmap_ctf.txt'') = None \<and>
   spawn (demo_env (scan_exits 137)) (nmap_ctf_cmd demo_self) = Spawned (demo_child 137) \<and>
   interrupted (demo_child 137) = None \<and>
   returncode (demo_child 137) \<noteq> 0 \<and>
   fst (run_main (demo_env (scan_exits 137)) demo_args empty_world) = Returned \<and>
   exit_status (fst (run_main (demo_env (scan_exits 137)) demo_args empty_world)) = 0 \<and>
   console (snd (run_main (demo_env (scan_exits 137)) demo_args empty_world)) =
     [''[*] Output directory: /home/kali/10.10.10.1\<newline>'',
      ''\<newline>'' @ replicate 70 CHR ''='' @ ''\<newline>'',
      ''Smart Enumerator - CTF Mode\<newline>'',
      ''Target: 10.10.10.1\<newline>'',
      replicate 70 CHR ''='' @ ''\<newline>'',
      ''\<newline>[+] Running: nmap -sC -sV -Pn -T4 10.10.10.1\<newline>'',
      ''[*] Saving to: /home/kali/10.10.10.1/20240307_090500_nmap_ctf.txt\<newline>'',
      ''Starting Nmap\<newline>'',
      ''Nmap done\<newline>'',
      ''[!] Command exited with code 137\<newline>'',
      ''\<newline>'' @ replicate 70 CHR ''='' @ ''\<newline>'',
      [CHR ''['', CHR 0xE2, CHR 0x9C, CHR 0x93] @ ''] Enumeration complete!\<newline>'',
      ''[*] Results saved in: /home/kali/10.10.10.1\<newline>'',
      replicate 70 CHR ''='' @ ''\<newline>\<newline>'']"
proof -
  let ?e = "demo_env (scan_exits 137)"
  have pre: "check_nmap ?e = PreflightOk"
    by (simp add: check_nmap_demo scan_exits_def)
  have en: "Enumerator ?e (arg_target demo_args) (arg_mode demo_args) empty_world =
     (Inr demo_self, print (''[*] Output directory: '' @ str_path (output_dir demo_self))
                       (mkdir_parents (output_dir demo_self) empty_world))"
    by (simp add: demo_args_def enumerator_demo)
  have md: "mode demo_self = ''ctf''"
    by (simp add: demo_self_def)
  have prof: "(mode demo_self = ''ctf'' \<and> nmap_ctf_cmd demo_self = nmap_ctf_cmd demo_self \<and>
                 ''nmap_ctf.txt'' = ''nmap_ctf.txt'') \<or>
              (mode demo_self = ''real'' \<and> nmap_ctf_cmd demo_self = nmap_realworld_cmd demo_self \<and>
                 ''nmap_ctf.txt'' = ''nmap_full.txt'')"
    using md by simp
  have op: "open_raises ?e (output_path ?e demo_self ''nmap_ctf.txt'') = None"
    by (simp add: demo_env_def)
  have sp: "spawn ?e (nmap_ctf_cmd demo_self) = Spawned (demo_child 137)"
    by (simp add: demo_env_def scan_exits_def nmap_ctf_cmd_def preflight_cmd_def)
  have ni: "interrupted (demo_child 137) = None"
    by (simp add: demo_child_def)
  have rc: "returncode (demo_child 137) \<noteq> 0"
    by (simp add: demo_child_def)
  have r: "returncode (demo_child 137) = 137"
    by (simp add: demo_child_def)
  have j: "str_join '' '' (nmap_ctf_cmd demo_self) = ''nmap -sC -sV -Pn -T4 10.10.10.1''"
    by (simp add: nmap_ctf_cmd_def demo_self_def)
  have g: "target demo_self = ''10.10.10.1''"
    by (simp add: demo_self_def)
  note th = nonzero_exit_still_completes [OF pre en prof op sp ni rc]
  have c: "console (snd (run_main ?e demo_args empty_world)) =
     [''[*] Output directory: /home/kali/10.10.10.1\<newline>'',
      ''\<newline>'' @ replicate 70 CHR ''='' @ ''\<newline>'',
      ''Smart Enumerator - CTF Mode\<newline>'',
      ''Target: 10.10.10.1\<newline>'',
      replicate 70 CHR ''='' @ ''\<newline>'',
      ''\<newline>[+] Running: nmap -sC -sV -Pn -T4 10.10.10.1\<newline>'',
      ''[*] Saving to: /home/kali/10.10.10.1/20240307_090500_nmap_ctf.txt\<newline>'',
      ''Starting Nmap\<newline>'',
      ''Nmap done\<newline>'',
      ''[!] Command exited with code 137\<newline>'',
      ''\<newline>'' @ replicate 70 CHR ''='' @ ''\<newline>'',
      [CHR ''['', CHR 0xE2, CHR 0x9C, CHR 0x93] @ ''] Enumeration complete!\<newline>'',
      ''[*] Results saved in: /home/kali/10.10.10.1\<newline>'',
      replicate 70 CHR ''='' @ ''\<newline>\<newline>'']"
    using th
    by (simp add: md j g r str_int_137 str_path_demo_dir str_path_demo_log upper_ctf
        read_lines_demo_child empty_world_def nl_def separator_def check_mark_def)
  from th have t1: "fst (run_main ?e demo_args empty_world) = Returned"
    and t2: "exit_status (fst (run_main ?e demo_args empty_world)) = 0"
    by simp_all
  show ?thesis
    by (intro conjI) (rule pre en md op sp ni rc t1 t2 c)+
qed

text \<open>
  The claim as the specification words it fails for a scan that exits with code 137
  after output that cannot be decoded: reading the output raises inside the \<open>try\<close>, the
  exit code is never looked at, and the error line is printed in place of the warning.
\<close>

theorem nonzero_exit_no_warning_counterexample:
  "spawn (demo_env scan_garbled) (nmap_ctf_cmd demo_self) = Spawned garbled_child \<and>
   returncode garbled_child = 137 \<and>
   console (snd (run_main (demo_env scan_garbled) demo_args empty_world)) =
     [''[*] Output directory: /home/kali/10.10.10.1\<newline>'',
      ''\<newline>'' @ replicate 70 CHR ''='' @ ''\<newline>'',
      ''Smart Enumerator - CTF Mode\<newline>'',
      ''Target: 10.10.10.1\<newline>'',
      replicate 70 CHR ''='' @ ''\<newline>'',
      ''\<newline>[+] Running: nmap -sC -sV -Pn -T4 10.10.10.1\<newline>'',
      ''[*] Saving to: /home/kali/10.10.10.1/20240307_090500_nmap_ctf.txt\<newline>'',
      ''Starting Nmap\<newline>'',
      [CHR ''['', CHR 0xE2, CHR 0x9C, CHR 0x97] @ ''] Error running command: invalid start byte\<newline>'',
      ''\<newline>'' @ replicate 70 CHR ''='' @ ''\<newline>'',
      [CHR ''['', CHR 0xE2, CHR 0x9C, CHR 0x93] @ ''] Enumeration complete!\<newline>'',
      ''[*] Results saved in: /home/kali/10.10.10.1\<newline>'',
      replicate 70 CHR ''='' @ ''\<newline>\<newline>''] \<and>
   ''[!] Command exited with code 137\<newline>''
     \<notin> set (console (snd (run_main (demo_env scan_garbled) demo_args empty_world)))"
proof -
  let ?e = "demo_env scan_garbled"
  have pre: "check_nmap ?e = PreflightOk"
    by (simp add: check_nmap_demo scan_garbled_def)
  have en: "Enumerator ?e (arg_target demo_args) (arg_mode demo_args) empty_world =
     (Inr demo_self, print (''[*] Output directory: '' @ str_path (output_dir demo_self))
                       (mkdir_parents (output_dir demo_self) empty_world))"
    by (simp add: demo_args_def enumerator_demo)
  have md: "mode demo_self = ''ctf''"
    by (simp add: demo_self_def)
  have g: "target demo_self = ''10.10.10.1''"
    by (simp add: demo_self_def)
  have s: "spawn ?e (nmap_ctf_cmd demo_self) = Spawned garbled_child"
    by (simp add: demo_env_def scan_garbled_def nmap_ctf_cmd_def preflight_cmd_def)
  have r: "returncode garbled_child = 137"
    by (simp add: garbled_child_def)
  have c: "console (snd (run_main ?e demo_args empty_world)) =
     [''[*] Output directory: /home/kali/10.10.10.1\<newline>'',
      ''\<newline>'' @ replicate 70 CHR ''='' @ ''\<newline>'',
      ''Smart Enumerator - CTF Mode\<newline>'',
      ''Target: 10.10.10.1\<newline>'',
      replicate 70 CHR ''='' @ ''\<newline>'',
      ''\<newline>[+] Running: nmap -sC -sV -Pn -T4 10.10.10.1\<newline>'',
      ''[*] Saving to: /home/kali/10.10.10.1/20240307_090500_nmap_ctf.txt\<newline>'',
      ''Starting Nmap\<newline>'',
      [CHR ''['', CHR 0xE2, CHR 0x9C, CHR 0x97] @ ''] Error running command: invalid start byte\<newline>'',
      ''\<newline>'' @ replicate 70 CHR ''='' @ ''\<newline>'',
      [CHR ''['', CHR 0xE2, CHR 0x9C, CHR 0x93] @ ''] Enumeration complete!\<newline>'',
      ''[*] Results saved in: /home/kali/10.10.10.1\<newline>'',
      replicate 70 CHR ''='' @ ''\<newline>\<newline>'']"
    unfolding run_main_preflight_ok [OF pre en]
    by (simp add: console_run_enumeration_ctf [OF md] console_garbled_scan md g
        str_path_demo_dir upper_ctf empty_world_def nl_def separator_def check_mark_def
        ballot_x_def)
  have n: "''[!] Command exited with code 137\<newline>''
     \<notin> set (console (snd (run_main ?e demo_args empty_world)))"
    unfolding c by (simp add: numeral_eq_Suc)
  show ?thesis
    by (intro conjI) (rule s r c n)+
qed

text \<open>
  C6, as the code has it. When the version query cannot find nmap, or nmap answers it
  with a non-zero exit code, the program prints its diagnostic line and exits with
  status 1, and the world is otherwise as it was: no directory and no file has been
  created. Any other exception of the version query is not caught: the program ends at
  once with status 1 and the world untouched, its diagnostic line not printed.
\<close>

theorem preflight_failure_stops_program:
  assumes "parse_args argv = Parsed a"
  shows "(spawn e preflight_cmd = SpawnRaises (FileNotFoundError msg) \<or>
          (spawn e preflight_cmd = Spawned ch \<and> returncode ch \<noteq> 0) \<longrightarrow>
          main e argv w =
            Some (SysExit 1,
                  w\<lparr>console := console w @
                     [''['' @ [CHR 0xE2, CHR 0x9C, CHR 0x97] @
                      ''] Error: nmap is not installed or not in PATH\<newline>'']\<rparr>) \<and>
          map_option (exit_status \<circ> fst) (main e argv w) = Some 1) \<and>
         (spawn e preflight_cmd = SpawnRaises (OtherException msg) \<longrightarrow>
          main e argv w = Some (Uncaught (OtherException msg), w) \<and>
          map_option (exit_status \<circ> fst) (main e argv w) = Some 1)"
  using assms
  by (auto simp: main_def run_main_def check_nmap_def print_end_def preflight_diagnostic_def
      ballot_x_def nl_def)

theorem preflight_failure_stops_program_witness:
  "parse_args [''-t'', ''10.10.10.1'', ''-m'', ''ctf''] = Parsed demo_args \<and>
   spawn (demo_env nmap_absent) preflight_cmd =
     SpawnRaises (FileNotFoundError ''[Errno 2] No such file or directory'') \<and>
   main (demo_env nmap_absent) [''-t'', ''10.10.10.1'', ''-m'', ''ctf''] empty_world =
     Some (SysExit 1,
           \<lparr>files = Map.empty, dirs = {},
            console = [''['' @ [CHR 0xE2, CHR 0x9C, CHR 0x97] @
                       ''] Error: nmap is not installed or not in PATH\<newline>'']\<rparr>) \<and>
   map_option (exit_status \<circ> fst)
     (main (demo_env nmap_absent) [''-t'', ''10.10.10.1'', ''-m'', ''ctf''] empty_world) = Some 1 \<and>
   spawn (demo_env nmap_broken) preflight_cmd =
     Spawned \<lparr>raw_output = [], interrupted = None, returncode = 127\<rparr> \<and>
   main (demo_env nmap_broken) [''-t'', ''10.10.10.1'', ''-m'', ''ctf''] empty_world =
     Some (SysExit 1,
           \<lparr>files = Map.empty, dirs = {},
            console = [''['' @ [CHR 0xE2, CHR 0x9C, CHR 0x97] @
                       ''] Error: nmap is not installed or not in PATH\<newline>'']\<rparr>) \<and>
   spawn (demo_env preflight_denied) preflight_cmd =
     SpawnRaises (OtherException ''[Errno 13] Permission denied'') \<and>
   main (demo_env preflight_denied) [''-t'', ''10.10.10.1'', ''-m'', ''ctf''] empty_world =
     Some (Uncaught (OtherException ''[Errno 13] Permission denied''), empty_world) \<and>
   map_option (exit_status \<circ> fst)
     (main (demo_env preflight_denied) [''-t'', ''10.10.10.1'', ''-m'', ''ctf''] empty_world) =
     Some 1"
proof -
  have s1: "spawn (demo_env nmap_absent) preflight_cmd =
     SpawnRaises (FileNotFoundError ''[Errno 2] No such file or directory'')"
    by (simp add: demo_env_def nmap_absent_def)
  have s2: "spawn (demo_env nmap_broken) preflight_cmd =
     Spawned \<lparr>raw_output = [], interrupted = None, returncode = 127\<rparr>"
    by (simp add: demo_env_def nmap_broken_def)
  have s3: "spawn (demo_env preflight_denied) preflight_cmd =
     SpawnRaises (OtherException ''[Errno 13] Permission denied'')"
    by (simp add: demo_env_def preflight_denied_def)
  show ?thesis
    using preflight_failure_stops_program [OF parse_args_demo, of "demo_env nmap_absent"
        "''[Errno 2] No such file or directory''"
        "\<lparr>raw_output = [], interrupted = None, returncode = 127\<rparr>" empty_world]
      preflight_failure_stops_program [OF parse_args_demo, of "demo_env nmap_broken" "''x''"
        "\<lparr>raw_output = [], interrupted = None, returncode = 127\<rparr>" empty_world]
      preflight_failure_stops_program [OF parse_args_demo, of "demo_env preflight_denied"
        "''[Errno 13] Permission denied''"
        "\<lparr>raw_output = [], interrupted = None, returncode = 127\<rparr>" empty_world]
      s1 s2 s3 parse_args_demo
    by (simp add: empty_world_def)
qed

text \<open>
  The claim as the specification words it, that every failing version query makes the
  program print a diagnostic, fails when the query raises an exception other than
  \<open>FileNotFoundError\<close>, as it does when nmap is there but may not be executed: the
  program ends with nothing printed.
\<close>

theorem preflight_uncaught_counterexample:
  "parse_args [''-t'', ''10.10.10.1'', ''-m'', ''ctf''] = Parsed demo_args \<and>
   spawn (demo_env preflight_denied) preflight_cmd =
     SpawnRaises (OtherException ''[Errno 13] Permission denied'') \<and>
   main (demo_env preflight_denied) [''-t'', ''10.10.10.1'', ''-m'', ''ctf''] empty_world =
     Some (Uncaught (OtherException ''[Errno 13] Permission denied''), empty_world) \<and>
   console empty_world = []"
proof -
  have s3: "spawn (demo_env preflight_denied) preflight_cmd =
     SpawnRaises (OtherException ''[Errno 13] Permission denied'')"
    by (simp add: demo_env_def preflight_denied_def)
  have m: "main (demo_env preflight_denied) [''-t'', ''10.10.10.1'', ''-m'', ''ctf''] empty_world =
     Some (Uncaught (OtherException ''[Errno 13] Permission denied''), empty_world)"
    by (simp add: main_def parse_args_demo run_main_def check_nmap_def s3)
  have c: "console empty_world = []"
    by (simp add: empty_world_def)
  show ?thesis
    by (intro conjI) (rule parse_args_demo s3 m c)+
qed

section \<open>The target argument\<close>

text \<open>
  C9, as the code has it. The target option is required, but its value is not checked,
  not even for being empty. On the command lines whose words with a leading dash are the
  option names \<open>-t\<close>, \<open>--target\<close>, \<open>-m\<close>, \<open>--mode\<close> written in full: a command line
  without \<open>-t\<close> and \<open>--target\<close> ends with a usage error, status 2, and nothing else
  has happened; and the target option with a value and the mode option with \<open>ctf\<close> or
  \<open>real\<close>, in either order, are accepted for every value that is empty or does not
  start with a dash. The value becomes the target as it is, the last word of either nmap
  command.
\<close>

theorem target_required_not_validated:
  "(list_all modelled_word argv \<and> \<not> list_ex is_target_flag argv \<longrightarrow>
      main e argv w = Some (SysExit 2, w)) \<and>
   (is_target_flag tf \<and> is_mode_flag mf \<and> is_value v \<and> md \<in> set mode_choices \<longrightarrow>
      parse_args [tf, v, mf, md] = Parsed \<lparr>arg_target = v, arg_mode = md\<rparr> \<and>
      parse_args [mf, md, tf, v] = Parsed \<lparr>arg_target = v, arg_mode = md\<rparr>) \<and>
   is_value [] \<and>
   (fst (Enumerator e v md w) = Inr self \<longrightarrow>
      target self = v \<and>
      nmap_ctf_cmd self = [''nmap'', ''-sC'', ''-sV'', ''-Pn'', ''-T4'', v] \<and>
      nmap_realworld_cmd self = [''nmap'', ''-sV'', ''-Pn'', ''--open'', ''-p-'', v])"
proof (intro conjI impI)
  assume h: "list_all modelled_word argv \<and> \<not> list_ex is_target_flag argv"
  then obtain u where "consume argv None None False = UsageError u"
    using consume_without_target [of argv None None False] by auto
  with h show "main e argv w = Some (SysExit 2, w)"
    by (simp add: main_def parse_args_def)
next
  assume h: "is_target_flag tf \<and> is_mode_flag mf \<and> is_value v \<and> md \<in> set mode_choices"
  then have v: "is_value md" by (auto simp: mode_choices_def is_value_def)
  from h have "\<not> is_target_flag mf"
    by (auto simp: is_target_flag_def is_mode_flag_def)
  with h v show "parse_args [tf, v, mf, md] = Parsed \<lparr>arg_target = v, arg_mode = md\<rparr>"
    by (simp add: parse_args_def modelled_word_def)
next
  assume h: "is_target_flag tf \<and> is_mode_flag mf \<and> is_value v \<and> md \<in> set mode_choices"
  then have v: "is_value md" by (auto simp: mode_choices_def is_value_def)
  from h have "\<not> is_target_flag mf"
    by (auto simp: is_target_flag_def is_mode_flag_def)
  with h v show "parse_args [mf, md, tf, v] = Parsed \<lparr>arg_target = v, arg_mode = md\<rparr>"
    by (simp add: parse_args_def modelled_word_def)
next
  show "is_value []" by (simp add: is_value_def)
next
  assume h: "fst (Enumerator e v md w) = Inr self"
  then show "target self = v"
    by (auto simp: Enumerator_def Let_def split: prod.splits option.splits)
next
  assume h: "fst (Enumerator e v md w) = Inr self"
  then have "target self = v"
    by (auto simp: Enumerator_def Let_def split: prod.splits option.splits)
  then show "nmap_ctf_cmd self = [''nmap'', ''-sC'', ''-sV'', ''-Pn'', ''-T4'', v]"
    by (simp add: nmap_ctf_cmd_def)
next
  assume h: "fst (Enumerator e v md w) = Inr self"
  then have "target self = v"
    by (auto simp: Enumerator_def Let_def split: prod.splits option.splits)
  then show "nmap_realworld_cmd self = [''nmap'', ''-sV'', ''-Pn'', ''--open'', ''-p-'', v]"
    by (simp add: nmap_realworld_cmd_def)
qed

theorem target_required_not_validated_witness:
  "list_all modelled_word [''-m'', ''ctf''] \<and> \<not> list_ex is_target_flag [''-m'', ''ctf''] \<and>
   main (demo_env (scan_exits 0)) [''-m'', ''ctf''] empty_world = Some (SysExit 2, empty_world) \<and>
   is_target_flag ''-t'' \<and> is_mode_flag ''-m'' \<and> is_value [] \<and> ''ctf'' \<in> set mode_choices \<and>
   parse_args [''-t'', [], ''-m'', ''ctf''] = Parsed \<lparr>arg_target = [], arg_mode = ''ctf''\<rparr> \<and>
   parse_args [''-m'', ''ctf'', ''-t'', []] = Parsed \<lparr>arg_target = [], arg_mode = ''ctf''\<rparr> \<and>
   fst (Enumerator (demo_env (scan_exits 0)) [] ''ctf'' empty_world) =
     Inr \<lparr>target = [], mode = ''ctf'', output_dir = path_join demo_home []\<rparr> \<and>
   nmap_ctf_cmd \<lparr>target = [], mode = ''ctf'', output_dir = path_join demo_home []\<rparr> =
     [''nmap'', ''-sC'', ''-sV'', ''-Pn'', ''-T4'', []]"
proof -
  have a: "list_all modelled_word [''-m'', ''ctf''] \<and> \<not> list_ex is_target_flag [''-m'', ''ctf'']"
    by (simp add: modelled_word_def is_value_def is_target_flag_def is_mode_flag_def)
  have b: "is_target_flag ''-t'' \<and> is_mode_flag ''-m'' \<and> is_value [] \<and> ''ctf'' \<in> set mode_choices"
    by (simp add: is_value_def mode_choices_def is_target_flag_def is_mode_flag_def)
  have c: "fst (Enumerator (demo_env (scan_exits 0)) [] ''ctf'' empty_world) =
     Inr \<lparr>target = [], mode = ''ctf'', output_dir = path_join demo_home []\<rparr>"
    by (simp add: enumerator_demo_env)
  show ?thesis
    using target_required_not_validated [of "[''-m'', ''ctf'']" "demo_env (scan_exits 0)"
        empty_world "''-t''" "''-m''" "[]" "''ctf''"
        "\<lparr>target = [], mode = ''ctf'', output_dir = path_join demo_home []\<rparr>"] a b c
    by simp
qed

text \<open>
  The claim as the specification words it, that an empty target is rejected, fails:
  \<open>-t '' -m ctf\<close> parses, and the program runs the scan and returns.
\<close>

theorem empty_target_accepted_counterexample:
  "parse_args [''-t'', [], ''-m'', ''ctf''] = Parsed \<lparr>arg_target = [], arg_mode = ''ctf''\<rparr> \<and>
   map_option fst (main (demo_env (scan_exits 0)) [''-t'', [], ''-m'', ''ctf''] empty_world) =
     Some Returned"
proof -
  have p: "parse_args [''-t'', [], ''-m'', ''ctf''] = Parsed \<lparr>arg_target = [], arg_mode = ''ctf''\<rparr>"
    by (simp add: parse_args_def modelled_word_def is_value_def is_target_flag_def
        is_mode_flag_def mode_choices_def)
  have c: "check_nmap (demo_env (scan_exits 0)) = PreflightOk"
    by (simp add: check_nmap_demo scan_exits_def)
  have "fst (run_main (demo_env (scan_exits 0)) \<lparr>arg_target = [], arg_mode = ''ctf''\<rparr> empty_world) =
          Returned"
    by (simp add: run_main_def c enumerator_demo_env)
  with p show ?thesis by (simp add: main_def)
qed

section \<open>The model on examples\<close>

lemma universal_newlines_example:
  "universal_newlines (''a'' @ [CHR 0x0D] @ ''b'' @ [CHR 0x0D, CHR 0x0A] @ ''c'' @ [CHR 0x0D]) =
     ''a\<newline>b\<newline>c\<newline>''"
  by simp

lemma str_int_examples: "str_int (- 9) = ''-9'' \<and> str_int 0 = ''0'' \<and> str_int 255 = ''255''"
  by code_simp

lemma parse_path_example:
  "parse_path ''/home//kali/./scans/'' = \<lparr>root = ''/'', names = [''home'', ''kali'', ''scans'']\<rparr> \<and>
   parse_path ''//srv'' = \<lparr>root = ''//'', names = [''srv'']\<rparr> \<and>
   parse_path [] = \<lparr>root = [], names = []\<rparr>"
  by (simp add: parse_path_def splitroot_def keep_name_def)

lemma path_join_example:
  "path_join demo_home ''/etc'' = \<lparr>root = ''/'', names = [''etc'']\<rparr> \<and>
   path_join demo_home [] = demo_home \<and>
   str_path (path_join demo_home ''a/./b//c'') = ''/home/kali/a/b/c'' \<and>
   str_path \<lparr>root = [], names = []\<rparr> = ''.''"
  by (simp add: path_join_def parse_path_def splitroot_def keep_name_def demo_home_def
      str_path_def)

lemma write_raises_example:
  "fst (run_command (demo_env (scan_interrupted disk_full))
          demo_self (nmap_ctf_cmd demo_self) ''nmap_ctf.txt'' empty_world) = False \<and>
   console (snd (run_command
          (demo_env (scan_interrupted disk_full))
          demo_self (nmap_ctf_cmd demo_self) ''nmap_ctf.txt'' empty_world)) =
     [''\<newline>[+] Running: nmap -sC -sV -Pn -T4 10.10.10.1\<newline>'',
      ''[*] Saving to: /home/kali/10.10.10.1/20240307_090500_nmap_ctf.txt\<newline>'',
      ''Starting Nmap\<newline>'',
      ''Nmap done\<newline>'',
      ''['' @ ballot_x @ ''] Error running command: No space left\<newline>''] \<and>
   files (snd (run_command
          (demo_env (scan_interrupted disk_full))
          demo_self (nmap_ctf_cmd demo_self) ''nmap_ctf.txt'' empty_world))
     (output_path (demo_env (scan_interrupted disk_full))
        demo_self ''nmap_ctf.txt'') =
     Some (''# Command: nmap -sC -sV -Pn -T4 10.10.10.1\<newline>'' @
           ''# Timestamp: 20240307_090500\<newline>'' @
           ''# Target: 10.10.10.1\<newline>'' @
           ''#'' @ replicate 70 CHR ''='' @ ''\<newline>'' @
           ''\<newline>'' @
           ''Starting Nmap\<newline>'')"
proof -
  let ?e = "demo_env (scan_interrupted disk_full)"
  let ?p = "output_path ?e demo_self ''nmap_ctf.txt''"
  have o: "open_raises ?e ?p = None"
    by (simp add: demo_env_def)
  have s: "spawn ?e (nmap_ctf_cmd demo_self) =
      Spawned (demo_child_with disk_full)"
    by (simp add: demo_env_def scan_interrupted_def nmap_ctf_cmd_def preflight_cmd_def)
  have l: "read_lines (demo_child_with disk_full) =
      [''Starting Nmap\<newline>'', ''Nmap done\<newline>'']"
    by (simp add: read_lines_def demo_child_with_def)
  have i: "interrupted (demo_child_with disk_full) =
      Some (WriteRaises 1 (OtherException ''No space left''))"
    by (simp add: demo_child_with_def disk_full_def)
  have j: "str_join '' '' (nmap_ctf_cmd demo_self) = ''nmap -sC -sV -Pn -T4 10.10.10.1''"
    by (simp add: nmap_ctf_cmd_def demo_self_def)
  have h: "files (write_all ?p (header ?e demo_self (nmap_ctf_cmd demo_self)) (fopen_w ?p w)) ?p =
      Some (''# Command: nmap -sC -sV -Pn -T4 10.10.10.1\<newline>'' @
           ''# Timestamp: 20240307_090500\<newline>'' @
           ''# Target: 10.10.10.1\<newline>'' @
           ''#'' @ replicate 70 CHR ''='' @ ''\<newline>'' @
           ''\<newline>'')" for w
    unfolding files_header_written by (simp add: demo_self_def header_demo)
  have h': "files (print_end a b
              (write_all ?p (header ?e demo_self (nmap_ctf_cmd demo_self)) (fopen_w ?p w))) ?p =
      Some (''# Command: nmap -sC -sV -Pn -T4 10.10.10.1\<newline>'' @
           ''# Timestamp: 20240307_090500\<newline>'' @
           ''# Target: 10.10.10.1\<newline>'' @
           ''#'' @ replicate 70 CHR ''='' @ ''\<newline>'' @
           ''\<newline>'')" for a b w
    by (simp only: files_print_end h)
  show ?thesis
    by (simp add: run_command_def Let_def o s l i j str_path_demo_log nl_def empty_world_def
        files_fwrite_same [OF h'])
qed

lemma mkdir_raises_example:
  "run_main mkdir_denied_env demo_args empty_world =
     (Uncaught (OtherException ''[Errno 13] Permission denied''),
      \<lparr>files = Map.empty,
       dirs = {\<lparr>root = ''/'', names = []\<rparr>,
               \<lparr>root = ''/'', names = [''home'']\<rparr>,
               \<lparr>root = ''/'', names = [''home'', ''kali'']\<rparr>},
       console = []\<rparr>)"
proof -
  have c: "check_nmap mkdir_denied_env = PreflightOk"
    by (simp add: check_nmap_def mkdir_denied_env_def scan_exits_def demo_child_def)
  have n: "names (path_join demo_home ''10.10.10.1'') = [''home'', ''kali'', ''10.10.10.1'']"
    by (simp add: path_join_def parse_path_def splitroot_def keep_name_def demo_home_def)
  have r: "root (path_join demo_home ''10.10.10.1'') = ''/''"
    by (simp add: path_join_def parse_path_def splitroot_def keep_name_def demo_home_def)
  have pp: "set (take (min 3 (length (names (path_join demo_home ''10.10.10.1''))))
                 (path_prefixes (path_join demo_home ''10.10.10.1''))) =
      {\<lparr>root = ''/'', names = []\<rparr>, \<lparr>root = ''/'', names = [''home'']\<rparr>,
       \<lparr>root = ''/'', names = [''home'', ''kali'']\<rparr>}"
    by (simp add: path_prefixes_def n r upt_rec)
  have e: "Enumerator mkdir_denied_env (arg_target demo_args) (arg_mode demo_args) empty_world =
      (Inl (OtherException ''[Errno 13] Permission denied''),
       \<lparr>files = Map.empty,
        dirs = {\<lparr>root = ''/'', names = []\<rparr>, \<lparr>root = ''/'', names = [''home'']\<rparr>,
                \<lparr>root = ''/'', names = [''home'', ''kali'']\<rparr>},
        console = []\<rparr>)"
    by (simp add: Enumerator_def setup_output_dir_def mkdir_denied_env_def demo_args_def
        empty_world_def pp)
  show ?thesis
    by (simp add: run_main_def c e)
qed

lemma parse_args_examples:
  "parse_args [''--target'', ''example.com'', ''--mode'', ''real''] =
     Parsed \<lparr>arg_target = ''example.com'', arg_mode = ''real''\<rparr> \<and>
   parse_args [''-t'', ''a'', ''-t'', ''b'', ''-m'', ''ctf''] =
     Parsed \<lparr>arg_target = ''b'', arg_mode = ''ctf''\<rparr> \<and>
   parse_args [''-t'', ''a'', ''-m'', ''fast''] = UsageError InvalidChoice \<and>
   parse_args [''-t'', ''a''] = UsageError MissingRequired \<and>
   parse_args [] = UsageError MissingRequired \<and>
   parse_args [''-t'', ''-m'', ''ctf''] = UsageError ExpectedOneArgument \<and>
   parse_args [''-m'', ''ctf'', ''-t''] = UsageError ExpectedOneArgument \<and>
   parse_args [''-t'', ''a'', ''-m'', ''ctf'', ''b''] = UsageError UnrecognizedArguments \<and>
   parse_args [''-t'', ''-x'', ''-m'', ''ctf''] = Unmodelled \<and>
   parse_args [''-h''] = Unmodelled \<and>
   parse_args [''--target=a'', ''-m'', ''ctf''] = Unmodelled"
  by (simp add: parse_args_def modelled_word_def is_value_def is_target_flag_def is_mode_flag_def
      mode_choices_def)

end
